theory Spec2Isabelle
  imports Main "HOL-Library.Sublist"
begin

section \<open>Data model of the room-booking store\<close>

type_synonym uuid = string
type_synonym timestamp = int

text \<open>The four values the \<^verbatim>\<open>status\<close> column of \<^verbatim>\<open>room_bookings\<close> takes in the code.\<close>

datatype booking_status = Pending | Approved | Rejected | Cancelled

text \<open>\<^verbatim>\<open>export type UserRole = 'admin' | 'leader' | 'staff'\<close> (src/lib/auth.ts).\<close>

datatype user_role = Admin | Leader | Staff

text \<open>
  Modelled from the spec: the \<^verbatim>\<open>CREATE TABLE room_bookings\<close> statement is not among the
  migrations at hand. A row has the columns the code reads and writes (\<^verbatim>\<open>id, title,
  description, room_id, user_id, start_time, end_time, status, updated_at\<close>) and the two
  columns \<open>b_approved_by\<close> and \<open>b_approved_at\<close>, which stand for the "optional approver
  reference and approval timestamp" of the spec's data model; no source file reads or
  writes these two. \<^verbatim>\<open>start_time\<close> and \<^verbatim>\<open>end_time\<close> are of type \<^verbatim>\<open>timestamp\<close> without time
  zone (\<^verbatim>\<open>tsrange\<close> of the exclusion constraint takes no other): a wall-clock reading, here
  in minutes, that the store compares as it is.
\<close>

record room_booking =
  b_id :: uuid
  b_title :: string
  b_description :: "string option"
  b_room_id :: uuid
  b_user_id :: uuid
  b_start_time :: timestamp
  b_end_time :: timestamp
  b_status :: booking_status
  b_updated_at :: timestamp
  b_approved_by :: "uuid option"
  b_approved_at :: "timestamp option"

text \<open>
  The tables the booking workflow touches: the bookings in the order the store returns
  them, the rooms (id, name) and the profiles (id, first_name, last_name; both names are
  nullable, see \<^verbatim>\<open>UserProfile\<close> in src/lib/auth.ts).
\<close>

record database =
  room_bookings :: "room_booking list"
  meeting_rooms :: "(uuid \<times> string) list"
  profiles :: "(uuid \<times> string option \<times> string option) list"

text \<open>The \<^verbatim>\<open>error\<close> object of a store response: \<^verbatim>\<open>error.code\<close> and \<^verbatim>\<open>error.message\<close>.\<close>

record pg_error =
  code :: string
  message :: string

definition dquote :: string where
  "dquote = [CHR 0x22]"

definition exclusion_violation :: pg_error where
  "exclusion_violation =
     \<lparr>code = ''23P01'',
      message = ''conflicting key value violates exclusion constraint ''
                @ dquote @ ''no_overlapping_bookings'' @ dquote\<rparr>"

definition check_violation :: pg_error where
  "check_violation =
     \<lparr>code = ''23514'',
      message = ''new row for relation '' @ dquote @ ''room_bookings'' @ dquote
                @ '' violates check constraint '' @ dquote @ ''valid_booking_time_range'' @ dquote\<rparr>"

definition unique_violation :: pg_error where
  "unique_violation =
     \<lparr>code = ''23505'',
      message = ''duplicate key value violates unique constraint '' @ dquote
                @ ''room_bookings_pkey'' @ dquote\<rparr>"

definition rls_violation :: pg_error where
  "rls_violation =
     \<lparr>code = ''42501'',
      message = ''new row violates row-level security policy for table '' @ dquote
                @ ''room_bookings'' @ dquote\<rparr>"

section \<open>Row-level security policies\<close>

text \<open>The signed-in user as the policies see it: \<^verbatim>\<open>auth.uid()\<close> and the rows of \<^verbatim>\<open>user_roles\<close>.\<close>

record caller =
  uid :: uuid
  roles :: "user_role list"

text \<open>\<^verbatim>\<open>auth.uid() = user_id\<close>; with no session \<^verbatim>\<open>auth.uid()\<close> is NULL and the test is not true.\<close>

definition auth_uid_is :: "caller option \<Rightarrow> uuid \<Rightarrow> bool" where
  "auth_uid_is c u = (case c of None \<Rightarrow> False | Some x \<Rightarrow> uid x = u)"

text \<open>
  Modelled from the spec: \<^verbatim>\<open>public.has_role(auth.uid(), role)\<close> is called by the policies
  but defined in no migration at hand; the access-control layer is "keyed on caller
  identity and role", so the caller has the role when \<^verbatim>\<open>user_roles\<close> holds it.
\<close>

definition has_role :: "caller option \<Rightarrow> user_role \<Rightarrow> bool" where
  "has_role c r = (case c of None \<Rightarrow> False | Some x \<Rightarrow> r \<in> set (roles x))"

text \<open>
  \<^verbatim>\<open>FOR SELECT USING (status = 'approved' OR auth.uid() = user_id OR has_role(leader) OR
  has_role(admin))\<close>. The other SELECT policies of the two migrations are disjuncts of this
  one, and permissive policies are combined with OR.
\<close>

definition select_policy :: "caller option \<Rightarrow> room_booking \<Rightarrow> bool" where
  "select_policy c r =
     (b_status r = Approved \<or> auth_uid_is c (b_user_id r)
      \<or> has_role c Leader \<or> has_role c Admin)"

text \<open>\<^verbatim>\<open>FOR INSERT WITH CHECK (auth.uid() = user_id AND status = 'pending')\<close>.\<close>

definition insert_check :: "caller option \<Rightarrow> room_booking \<Rightarrow> bool" where
  "insert_check c r = (auth_uid_is c (b_user_id r) \<and> b_status r = Pending)"

text \<open>
  \<^verbatim>\<open>FOR UPDATE USING ((has_role(leader) OR has_role(admin)) OR (auth.uid() = user_id AND
  status = 'pending')) WITH CHECK (the same)\<close>: the policy "Only leaders and admins can
  approve bookings", which is also the OR of the two update policies of the migration
  20250101000002. USING is evaluated on the stored row, WITH CHECK on the updated row.
\<close>

definition update_using :: "caller option \<Rightarrow> room_booking \<Rightarrow> bool" where
  "update_using c r =
     ((has_role c Leader \<or> has_role c Admin)
      \<or> (auth_uid_is c (b_user_id r) \<and> b_status r = Pending))"

definition update_check :: "caller option \<Rightarrow> room_booking \<Rightarrow> bool" where
  "update_check c r =
     ((has_role c Leader \<or> has_role c Admin)
      \<or> (auth_uid_is c (b_user_id r) \<and> b_status r = Pending))"

section \<open>Table constraints\<close>

text \<open>\<^verbatim>\<open>CONSTRAINT valid_booking_time_range CHECK (start_time < end_time)\<close>.\<close>

definition valid_booking_time_range :: "room_booking \<Rightarrow> bool" where
  "valid_booking_time_range r = (b_start_time r < b_end_time r)"

text \<open>
  \<^verbatim>\<open>tsrange(s1, e1, '[]') && tsrange(s2, e2, '[]')\<close>: two ranges with both bounds inclusive
  have a point in common.
\<close>

definition tsrange_overlap :: "timestamp \<Rightarrow> timestamp \<Rightarrow> timestamp \<Rightarrow> timestamp \<Rightarrow> bool" where
  "tsrange_overlap s1 e1 s2 e2 = (s1 \<le> e2 \<and> s2 \<le> e1)"

text \<open>
  \<^verbatim>\<open>CONSTRAINT no_overlapping_bookings EXCLUDE USING gist (room_id WITH =,
  tsrange(start_time, end_time, '[]') WITH &&)\<close>: two rows collide when every listed
  operator holds between them. The constraint has no WHERE clause: it does not look at
  the status. \<open>exclusion_conflict\<close> is the collision of two rows,
  \<open>no_overlapping_bookings\<close> the constraint on the table: no two rows collide.
\<close>

definition exclusion_conflict :: "room_booking \<Rightarrow> room_booking \<Rightarrow> bool" where
  "exclusion_conflict a b =
     (b_room_id a = b_room_id b
      \<and> tsrange_overlap (b_start_time a) (b_end_time a) (b_start_time b) (b_end_time b))"

definition no_overlapping_bookings :: "room_booking list \<Rightarrow> bool" where
  "no_overlapping_bookings rows =
     (\<forall>a \<in> set rows. \<forall>b \<in> set rows. b_id a \<noteq> b_id b \<longrightarrow> \<not> exclusion_conflict a b)"

section \<open>Store operations\<close>

text \<open>
  INSERT of one row: the INSERT policy, then the CHECK constraint, then the indexes
  (primary key, exclusion constraint). A failed statement leaves the table as it was.
\<close>

definition db_insert :: "caller option \<Rightarrow> room_booking \<Rightarrow> database \<Rightarrow> pg_error + database" where
  "db_insert c r d =
     (if \<not> insert_check c r then Inl rls_violation
      else if \<not> valid_booking_time_range r then Inl check_violation
      else if b_id r \<in> set (map b_id (room_bookings d)) then Inl unique_violation
      else if \<exists>x \<in> set (room_bookings d). exclusion_conflict x r
        then Inl exclusion_violation
      else Inr (d\<lparr>room_bookings := room_bookings d @ [r]\<rparr>))"

text \<open>
  \<^verbatim>\<open>UPDATE room_bookings SET ... WHERE id = bid\<close>: the rows the caller may see and update
  are rewritten by \<open>f\<close>; each new row version must pass the WITH CHECK policy, the CHECK
  constraint and the exclusion constraint against every other row. The statement is
  atomic, and updating no row is not an error. The new row version is kept at the place
  of the old one in the list; the store itself promises no order of the rows of a
  SELECT without ORDER BY.
\<close>

definition db_update ::
  "caller option \<Rightarrow> uuid \<Rightarrow> (room_booking \<Rightarrow> room_booking) \<Rightarrow> database \<Rightarrow> pg_error + database" where
  "db_update c bid f d =
     (let hit = (\<lambda>r. b_id r = bid \<and> select_policy c r \<and> update_using c r);
          old = filter hit (room_bookings d)
      in if \<exists>r \<in> set old. \<not> (update_check c (f r) \<and> select_policy c (f r))
           then Inl rls_violation
         else if \<exists>r \<in> set old. \<not> valid_booking_time_range (f r) then Inl check_violation
         else if \<exists>r \<in> set old. \<exists>x \<in> set (room_bookings d).
                   b_id x \<noteq> b_id r \<and> exclusion_conflict x (f r)
           then Inl exclusion_violation
         else Inr (d\<lparr>room_bookings := map (\<lambda>r. if hit r then f r else r) (room_bookings d)\<rparr>))"

section \<open>The store client\<close>

text \<open>
  The \<^verbatim>\<open>supabase\<close> client object as it runs in a browser: the signed-in user of the
  session, whether data requests currently fail (network or server failure, with the
  error they then report), the UTC offset of the browser's time zone in minutes east of
  UTC (420 for UTC+7), and the tables behind it.
\<close>

record supabase =
  auth_user :: "caller option"
  outage :: "pg_error option"
  utc_offset :: int
  tables :: database

text \<open>\<^verbatim>\<open>getCurrentUser\<close> (src/lib/auth.ts): the user of the session, or null.\<close>

definition getCurrentUser :: "supabase \<Rightarrow> caller option" where
  "getCurrentUser sb = auth_user sb"

text \<open>A row of \<^verbatim>\<open>room_bookings\<close> with \<^verbatim>\<open>meeting_rooms!inner(name)\<close> and
  \<^verbatim>\<open>profiles!inner(first_name, last_name)\<close> embedded.\<close>

record joined_booking =
  jb_row :: room_booking
  jb_room_name :: string
  jb_first_name :: "string option"
  jb_last_name :: "string option"

text \<open>An inner join drops the booking when the room or the profile row is missing.\<close>

definition inner_join :: "database \<Rightarrow> room_booking \<Rightarrow> joined_booking option" where
  "inner_join d r =
     (case map_of (meeting_rooms d) (b_room_id r) of
        None \<Rightarrow> None
      | Some n \<Rightarrow>
          (case map_of (profiles d) (b_user_id r) of
             None \<Rightarrow> None
           | Some (fn, ln) \<Rightarrow>
               Some \<lparr>jb_row = r, jb_room_name = n, jb_first_name = fn, jb_last_name = ln\<rparr>))"

text \<open>
  \<^verbatim>\<open>supabase.from("room_bookings").select(... !inner ...)\<close> with the filters \<open>flt\<close>: the
  response is \<^verbatim>\<open>{ data, error }\<close>, here \<open>Inr data\<close> or \<open>Inl error\<close>. Only rows the SELECT
  policy shows to the caller are returned, in table order when the query has no
  \<^verbatim>\<open>.order(...)\<close>.
\<close>

definition select_joined ::
  "supabase \<Rightarrow> (room_booking \<Rightarrow> bool) \<Rightarrow> pg_error + joined_booking list" where
  "select_joined sb flt =
     (case outage sb of
        Some e \<Rightarrow> Inl e
      | None \<Rightarrow>
          Inr (List.map_filter (inner_join (tables sb))
                 (filter (\<lambda>r. select_policy (auth_user sb) r \<and> flt r)
                    (room_bookings (tables sb)))))"

text \<open>\<^verbatim>\<open>supabase.from("room_bookings").select("*")\<close> with filters, no inner join.\<close>

definition select_rows ::
  "supabase \<Rightarrow> (room_booking \<Rightarrow> bool) \<Rightarrow> pg_error + room_booking list" where
  "select_rows sb flt =
     (case outage sb of
        Some e \<Rightarrow> Inl e
      | None \<Rightarrow>
          Inr (filter (\<lambda>r. select_policy (auth_user sb) r \<and> flt r)
                 (room_bookings (tables sb))))"

text \<open>\<^verbatim>\<open>supabase.from("room_bookings").update(payload).eq("id", bid)\<close>.\<close>

definition request_update ::
  "supabase \<Rightarrow> uuid \<Rightarrow> (room_booking \<Rightarrow> room_booking) \<Rightarrow> pg_error + database" where
  "request_update sb bid f =
     (case outage sb of
        Some e \<Rightarrow> Inl e
      | None \<Rightarrow> db_update (auth_user sb) bid f (tables sb))"

text \<open>\<^verbatim>\<open>supabase.from("room_bookings").insert([row])\<close>.\<close>

definition request_insert :: "supabase \<Rightarrow> room_booking \<Rightarrow> pg_error + database" where
  "request_insert sb r =
     (case outage sb of
        Some e \<Rightarrow> Inl e
      | None \<Rightarrow> db_insert (auth_user sb) r (tables sb))"

section \<open>JavaScript string helpers\<close>

text \<open>A template literal prints a null value as the four characters \<^verbatim>\<open>null\<close>.\<close>

definition js_template :: "string option \<Rightarrow> string" where
  "js_template v = (case v of None \<Rightarrow> ''null'' | Some s \<Rightarrow> s)"

text \<open>
  The white space and line terminators that \<^verbatim>\<open>String.prototype.trim\<close> removes, each as
  the bytes of its UTF-8 encoding (a \<open>string\<close> here is the UTF-8 text): tab, line feed,
  vertical tab, form feed, carriage return, space, U+00A0, U+1680, U+2000 to U+200A,
  U+2028, U+2029, U+202F, U+205F, U+3000 and U+FEFF.
\<close>

definition white_space :: "string list" where
  "white_space =
     [[CHR 0x09], [CHR 0x0A], [CHR 0x0B], [CHR 0x0C], [CHR 0x0D], [CHR 0x20],
      [CHR 0xC2, CHR 0xA0],
      [CHR 0xE1, CHR 0x9A, CHR 0x80],
      [CHR 0xE2, CHR 0x80, CHR 0x80], [CHR 0xE2, CHR 0x80, CHR 0x81],
      [CHR 0xE2, CHR 0x80, CHR 0x82], [CHR 0xE2, CHR 0x80, CHR 0x83],
      [CHR 0xE2, CHR 0x80, CHR 0x84], [CHR 0xE2, CHR 0x80, CHR 0x85],
      [CHR 0xE2, CHR 0x80, CHR 0x86], [CHR 0xE2, CHR 0x80, CHR 0x87],
      [CHR 0xE2, CHR 0x80, CHR 0x88], [CHR 0xE2, CHR 0x80, CHR 0x89],
      [CHR 0xE2, CHR 0x80, CHR 0x8A],
      [CHR 0xE2, CHR 0x80, CHR 0xA8], [CHR 0xE2, CHR 0x80, CHR 0xA9],
      [CHR 0xE2, CHR 0x80, CHR 0xAF],
      [CHR 0xE2, CHR 0x81, CHR 0x9F],
      [CHR 0xE3, CHR 0x80, CHR 0x80],
      [CHR 0xEF, CHR 0xBB, CHR 0xBF]]"

text \<open>Removes from the front of \<open>s\<close> every leading occurrence of one of the patterns.\<close>

function strip_leading :: "string list \<Rightarrow> string \<Rightarrow> string" where
  "strip_leading ws s =
     (case find (\<lambda>w. w \<noteq> [] \<and> prefix w s) ws of
        None \<Rightarrow> s
      | Some w \<Rightarrow> strip_leading ws (drop (length w) s))"
  by pat_completeness auto
termination
  by (relation "measure (\<lambda>(ws, s). length s)") (auto simp: find_Some_iff prefix_def)

declare strip_leading.simps [simp del]

text \<open>\<^verbatim>\<open>String.prototype.trim\<close>: white space is removed at both ends.\<close>

definition trim :: "string \<Rightarrow> string" where
  "trim s = rev (strip_leading (map rev white_space) (rev (strip_leading white_space s)))"

section \<open>JavaScript dates\<close>

text \<open>
  \<^verbatim>\<open>new Date(s)\<close> for a date-time string without a zone, as the form fields build it
  (\<^verbatim>\<open>`${start}T${startT}`\<close>) and as the store prints a \<^verbatim>\<open>timestamp\<close> column: the string is
  read as local time, so the wall-clock reading \<open>wall\<close> in a zone \<open>off\<close> minutes east of
  UTC is the instant \<open>wall - off\<close> on the UTC time line. A string that does not parse
  (\<open>None\<close>) gives the invalid date (\<open>None\<close>). The offset is taken as fixed (no change of
  daylight saving time between the times at hand).
\<close>

definition new_Date :: "int \<Rightarrow> timestamp option \<Rightarrow> timestamp option" where
  "new_Date off s = (case s of None \<Rightarrow> None | Some wall \<Rightarrow> Some (wall - off))"

text \<open>
  \<^verbatim>\<open>date.toISOString()\<close>: the UTC wall-clock reading of the instant, printed with the suffix
  \<^verbatim>\<open>Z\<close>; on the invalid date it throws a RangeError (\<open>None\<close>). Compared with a \<^verbatim>\<open>timestamp\<close>
  column the store reads the printed reading and ignores the zone suffix.
\<close>

definition toISOString :: "timestamp option \<Rightarrow> timestamp option" where
  "toISOString date = date"

text \<open>\<^verbatim>\<open>String.prototype.includes\<close>: the second string occurs somewhere in the first.\<close>

fun str_includes :: "string \<Rightarrow> string \<Rightarrow> bool" where
  "str_includes [] sub = (sub = [])"
| "str_includes (ch # cs) sub = (prefix sub (ch # cs) \<or> str_includes cs sub)"

section \<open>src/lib/booking-utils.ts\<close>

record ConflictingBooking =
  cb_id :: uuid
  cb_title :: string
  cb_room_name :: string
  cb_start_time :: timestamp
  cb_end_time :: timestamp
  cb_user_name :: string

text \<open>
  \<^verbatim>\<open>`${conflict.profiles.first_name} ${conflict.profiles.last_name}`.trim() ||
  "Unknown User"\<close>.
\<close>

definition user_name_of :: "string option \<Rightarrow> string option \<Rightarrow> string" where
  "user_name_of fn ln =
     (let s = trim (js_template fn @ '' '' @ js_template ln)
      in if s = [] then ''Unknown User'' else s)"

text \<open>The object literal both functions build from a returned row.\<close>

definition conflict_of :: "joined_booking \<Rightarrow> ConflictingBooking" where
  "conflict_of conflict =
     \<lparr>cb_id = b_id (jb_row conflict),
      cb_title = b_title (jb_row conflict),
      cb_room_name = jb_room_name conflict,
      cb_start_time = b_start_time (jb_row conflict),
      cb_end_time = b_end_time (jb_row conflict),
      cb_user_name = user_name_of (jb_first_name conflict) (jb_last_name conflict)\<rparr>"

text \<open>
  \<^verbatim>\<open>checkBookingAvailability(roomId, startTime, endTime, excludeBookingId?)\<close>. The two time
  arguments are date-time strings without a zone (\<open>None\<close>: a string \<^verbatim>\<open>new Date\<close> cannot
  parse). When \<^verbatim>\<open>toISOString()\<close> throws, the \<^verbatim>\<open>catch\<close> returns null. The result is null
  (\<open>None\<close>) or the first returned row.
\<close>

definition checkBookingAvailability ::
  "supabase \<Rightarrow> uuid \<Rightarrow> timestamp option \<Rightarrow> timestamp option \<Rightarrow> uuid option
     \<Rightarrow> ConflictingBooking option" where
  "checkBookingAvailability sb roomId startTime endTime excludeBookingId =
     (let startDateTime = new_Date (utc_offset sb) startTime;
          endDateTime = new_Date (utc_offset sb) endTime
      in case toISOString endDateTime of
           None \<Rightarrow> None
         | Some endISO \<Rightarrow>
             (case toISOString startDateTime of
                None \<Rightarrow> None
              | Some startISO \<Rightarrow>
                  (case select_joined sb
                          (\<lambda>r. b_room_id r = roomId
                               \<and> b_status r = Approved
                               \<and> b_start_time r < endISO
                               \<and> b_end_time r > startISO) of
                     Inl error \<Rightarrow> None
                   | Inr data \<Rightarrow>
                       (case data of
                          [] \<Rightarrow> None
                        | conflict # rest \<Rightarrow> Some (conflict_of conflict)))))"

text \<open>\<^verbatim>\<open>getConflictingBookings(roomId, startTime, endTime, excludeBookingId)\<close>.\<close>

definition getConflictingBookings ::
  "supabase \<Rightarrow> uuid \<Rightarrow> timestamp option \<Rightarrow> timestamp option \<Rightarrow> uuid
     \<Rightarrow> ConflictingBooking list" where
  "getConflictingBookings sb roomId startTime endTime excludeBookingId =
     (let startDateTime = new_Date (utc_offset sb) startTime;
          endDateTime = new_Date (utc_offset sb) endTime
      in case toISOString endDateTime of
           None \<Rightarrow> []
         | Some endISO \<Rightarrow>
             (case toISOString startDateTime of
                None \<Rightarrow> []
              | Some startISO \<Rightarrow>
                  (case select_joined sb
                          (\<lambda>r. b_room_id r = roomId
                               \<and> b_id r \<noteq> excludeBookingId
                               \<and> (b_status r = Approved \<or> b_status r = Pending)
                               \<and> b_start_time r < endISO
                               \<and> b_end_time r > startISO) of
                     Inl error \<Rightarrow> []
                   | Inr data \<Rightarrow> map conflict_of data)))"

section \<open>Toasts\<close>

record toast =
  t_title :: string
  t_description :: string
  t_destructive :: bool

section \<open>AdminApprovalView\<close>

record PendingBooking =
  pb_id :: uuid
  pb_title :: string
  pb_room_id :: uuid
  pb_room_name :: string
  pb_start_time :: timestamp
  pb_end_time :: timestamp
  pb_user_id :: uuid
  pb_user_name :: string
  pb_description :: "string option"

text \<open>The component's state (its \<^verbatim>\<open>useState\<close> cells) and the toasts it has shown.\<close>

record approval_view =
  bookings :: "PendingBooking list"
  loading :: bool
  selectedBooking :: "PendingBooking option"
  conflicts :: "ConflictingBooking list"
  approvalDialogOpen :: bool
  processingBookingId :: string
  toasts :: "toast list"

definition formatted_booking :: "joined_booking \<Rightarrow> PendingBooking" where
  "formatted_booking booking =
     \<lparr>pb_id = b_id (jb_row booking),
      pb_title = b_title (jb_row booking),
      pb_room_id = b_room_id (jb_row booking),
      pb_room_name = jb_room_name booking,
      pb_start_time = b_start_time (jb_row booking),
      pb_end_time = b_end_time (jb_row booking),
      pb_user_id = b_user_id (jb_row booking),
      pb_user_name = user_name_of (jb_first_name booking) (jb_last_name booking),
      pb_description = b_description (jb_row booking)\<rparr>"

text \<open>\<^verbatim>\<open>fetchPendingBookings\<close>: the pending bookings, \<^verbatim>\<open>.order("start_time")\<close>.\<close>

definition fetchPendingBookings :: "supabase \<Rightarrow> approval_view \<Rightarrow> approval_view" where
  "fetchPendingBookings sb st =
     (case select_joined sb (\<lambda>r. b_status r = Pending) of
        Inl error \<Rightarrow>
          st\<lparr>loading := False,
             toasts := toasts st @
               [\<lparr>t_title = ''Error'', t_description = ''Failed to load pending bookings'',
                 t_destructive = True\<rparr>]\<rparr>
      | Inr data \<Rightarrow>
          st\<lparr>loading := False,
             bookings := map formatted_booking
                           (sort_key (\<lambda>j. b_start_time (jb_row j)) data)\<rparr>)"

text \<open>
  \<^verbatim>\<open>handleApproveClick(booking)\<close>: the check gets \<^verbatim>\<open>booking.start_time\<close> and
  \<^verbatim>\<open>booking.end_time\<close>, the strings the store printed for the two columns.
  \<^verbatim>\<open>getConflictingBookings\<close> catches every error itself, so the \<^verbatim>\<open>catch\<close> of this handler has
  no path leading to it.
\<close>

definition handleApproveClick ::
  "supabase \<Rightarrow> PendingBooking \<Rightarrow> approval_view \<Rightarrow> approval_view" where
  "handleApproveClick sb booking st =
     (let conflictingBookings =
            getConflictingBookings sb (pb_room_id booking) (Some (pb_start_time booking))
              (Some (pb_end_time booking)) (pb_id booking)
      in st\<lparr>selectedBooking := Some booking,
            conflicts := conflictingBookings,
            approvalDialogOpen := True\<rparr>)"

text \<open>\<^verbatim>\<open>.update({ status: "approved" })\<close>: the payload of the approval.\<close>

definition approve_payload :: "room_booking \<Rightarrow> room_booking" where
  "approve_payload r = r\<lparr>b_status := Approved\<rparr>"

text \<open>\<^verbatim>\<open>.update({ status: "rejected" })\<close>.\<close>

definition reject_payload :: "room_booking \<Rightarrow> room_booking" where
  "reject_payload r = r\<lparr>b_status := Rejected\<rparr>"

text \<open>\<^verbatim>\<open>handleApprove()\<close>: returns the store and the view after the handler has run.\<close>

definition handleApprove :: "supabase \<Rightarrow> approval_view \<Rightarrow> supabase \<times> approval_view" where
  "handleApprove sb st =
     (case selectedBooking st of
        None \<Rightarrow> (sb, st)
      | Some sel \<Rightarrow>
          (case request_update sb (pb_id sel) approve_payload of
             Inl error \<Rightarrow>
               (sb, st\<lparr>toasts := toasts st @
                         [\<lparr>t_title = ''Error'',
                           t_description =
                             (if message error = [] then ''Failed to approve booking''
                              else message error),
                           t_destructive = True\<rparr>],
                       processingBookingId := []\<rparr>)
           | Inr d \<Rightarrow>
               (sb\<lparr>tables := d\<rparr>,
                fetchPendingBookings (sb\<lparr>tables := d\<rparr>)
                  (st\<lparr>toasts := toasts st @
                        [\<lparr>t_title = ''Success'',
                          t_description = ''Booking '' @ dquote @ pb_title sel @ dquote
                                          @ '' has been approved'',
                          t_destructive = False\<rparr>],
                      approvalDialogOpen := False,
                      selectedBooking := None,
                      conflicts := [],
                      processingBookingId := []\<rparr>))))"

text \<open>\<^verbatim>\<open>handleReject(bookingId)\<close>.\<close>

definition handleReject :: "supabase \<Rightarrow> uuid \<Rightarrow> approval_view \<Rightarrow> supabase \<times> approval_view" where
  "handleReject sb bookingId st =
     (case request_update sb bookingId reject_payload of
        Inl error \<Rightarrow>
          (sb, st\<lparr>toasts := toasts st @
                    [\<lparr>t_title = ''Error'',
                      t_description =
                        (if message error = [] then ''Failed to reject booking''
                         else message error),
                      t_destructive = True\<rparr>],
                  processingBookingId := []\<rparr>)
      | Inr d \<Rightarrow>
          (sb\<lparr>tables := d\<rparr>,
           fetchPendingBookings (sb\<lparr>tables := d\<rparr>)
             (st\<lparr>toasts := toasts st @
                   [\<lparr>t_title = ''Success'', t_description = ''Booking has been rejected'',
                     t_destructive = False\<rparr>],
                 processingBookingId := []\<rparr>)))"

text \<open>
  The Approve button of the confirmation dialog:
  \<^verbatim>\<open>disabled={processingBookingId !== "" || conflicts.length > 0}\<close>.
\<close>

definition approve_button_disabled :: "approval_view \<Rightarrow> bool" where
  "approve_button_disabled st = (processingBookingId st \<noteq> [] \<or> length (conflicts st) > 0)"

text \<open>
  A click on that button: \<^verbatim>\<open>onClick={handleApprove}\<close> runs when the dialog is open and
  the button is not disabled; a disabled button fires no event.
\<close>

definition dialog_approve_click :: "supabase \<Rightarrow> approval_view \<Rightarrow> supabase \<times> approval_view" where
  "dialog_approve_click sb st =
     (if approvalDialogOpen st \<and> \<not> approve_button_disabled st then handleApprove sb st
      else (sb, st))"

text \<open>
  What the dialog shows for the selected booking: the "Conflicting Bookings Found!" alert
  listing \<^verbatim>\<open>conflicts\<close> when \<^verbatim>\<open>conflicts.length > 0\<close>, the "No conflicts detected. Safe to
  approve." note when \<^verbatim>\<open>conflicts.length === 0\<close>.
\<close>

datatype dialog_body = Conflicts_Found "ConflictingBooking list" | Safe_To_Approve

definition dialog_shows :: "approval_view \<Rightarrow> dialog_body option" where
  "dialog_shows st =
     (if approvalDialogOpen st \<and> selectedBooking st \<noteq> None
      then (if length (conflicts st) > 0 then Some (Conflicts_Found (conflicts st))
            else Some Safe_To_Approve)
      else None)"

section \<open>MyBookings\<close>

record my_bookings =
  mb_bookings :: "room_booking list"
  mb_loading :: bool
  mb_cancelingId :: "uuid option"
  mb_toasts :: "toast list"

text \<open>\<^verbatim>\<open>loadBookings\<close>: the user's own bookings,
  \<^verbatim>\<open>.order('start_time', { ascending: false })\<close>.\<close>

definition loadBookings :: "supabase \<Rightarrow> my_bookings \<Rightarrow> my_bookings" where
  "loadBookings sb st =
     (case getCurrentUser sb of
        None \<Rightarrow> st\<lparr>mb_loading := False\<rparr>
      | Some user \<Rightarrow>
          (case select_rows sb (\<lambda>r. b_user_id r = uid user) of
             Inl error \<Rightarrow>
               st\<lparr>mb_loading := False,
                  mb_toasts := mb_toasts st @
                    [\<lparr>t_title = ''Error'', t_description = ''Failed to load bookings'',
                      t_destructive = True\<rparr>]\<rparr>
           | Inr data \<Rightarrow>
               st\<lparr>mb_loading := False,
                  mb_bookings := sort_key (\<lambda>r. - b_start_time r) data\<rparr>))"

text \<open>\<^verbatim>\<open>.update({ status: 'cancelled', updated_at: new Date().toISOString() })\<close>.\<close>

definition cancel_payload :: "timestamp \<Rightarrow> room_booking \<Rightarrow> room_booking" where
  "cancel_payload now r = r\<lparr>b_status := Cancelled, b_updated_at := now\<rparr>"

text \<open>\<^verbatim>\<open>handleCancel(bookingId)\<close>, run at the instant \<open>now\<close> (\<^verbatim>\<open>new Date().toISOString()\<close>).\<close>

definition handleCancel ::
  "supabase \<Rightarrow> uuid \<Rightarrow> timestamp \<Rightarrow> my_bookings \<Rightarrow> supabase \<times> my_bookings" where
  "handleCancel sb bookingId now st =
     (case request_update sb bookingId (cancel_payload now) of
        Inl error \<Rightarrow>
          (sb, st\<lparr>mb_toasts := mb_toasts st @
                    [\<lparr>t_title = ''Error'', t_description = ''Failed to cancel booking'',
                      t_destructive = True\<rparr>]\<rparr>)
      | Inr d \<Rightarrow>
          (sb\<lparr>tables := d\<rparr>,
           loadBookings (sb\<lparr>tables := d\<rparr>)
             (st\<lparr>mb_toasts := mb_toasts st @
                   [\<lparr>t_title = ''Success'',
                     t_description = ''Booking cancelled successfully'',
                     t_destructive = False\<rparr>],
                 mb_cancelingId := None\<rparr>)))"

text \<open>\<^verbatim>\<open>isPast(date)\<close> of date-fns at the instant \<open>now\<close>; the invalid date is not past.\<close>

definition isPast :: "timestamp \<Rightarrow> timestamp option \<Rightarrow> bool" where
  "isPast now date = (case date of None \<Rightarrow> False | Some t \<Rightarrow> t < now)"

text \<open>
  The cancel button of a row of the table:
  \<^verbatim>\<open>booking.status !== 'cancelled' && !isPast(new Date(booking.end_time))\<close>.
\<close>

definition cancel_button_shown :: "supabase \<Rightarrow> timestamp \<Rightarrow> room_booking \<Rightarrow> bool" where
  "cancel_button_shown sb now booking =
     (b_status booking \<noteq> Cancelled
      \<and> \<not> isPast now (new_Date (utc_offset sb) (Some (b_end_time booking))))"

section \<open>CreateBookingDialog\<close>

text \<open>The fields of the form that go into the inserted row; the two times are
  \<^verbatim>\<open>`${startDate}T${startTime}:00`\<close> and \<^verbatim>\<open>`${endDate}T${endTime}:00`\<close>.\<close>

record booking_form =
  f_title :: string
  f_description :: string
  f_roomId :: uuid
  f_startDateTime :: timestamp
  f_endDateTime :: timestamp

record create_dialog =
  cd_open :: bool
  cd_toasts :: "toast list"

text \<open>The test of the error branch of \<^verbatim>\<open>handleSubmit\<close>:
  \<^verbatim>\<open>errorMsg.includes('overlapping') || errorMsg.includes('conflict') || errorCode === '23P01'\<close>
  with \<^verbatim>\<open>errorMsg = error?.message || 'Unknown error'\<close> and \<^verbatim>\<open>errorCode = error?.code || ''\<close>.\<close>

definition is_conflict_error :: "pg_error \<Rightarrow> bool" where
  "is_conflict_error error =
     (let errorMsg = (if message error = [] then ''Unknown error'' else message error);
          errorCode = code error
      in str_includes errorMsg ''overlapping'' \<or> str_includes errorMsg ''conflict''
         \<or> errorCode = ''23P01'')"

definition conflict_toast :: toast where
  "conflict_toast =
     \<lparr>t_title = ''Booking Conflict'',
      t_description = ''This room is already booked for the selected time. Please choose a different time or room.'',
      t_destructive = True\<rparr>"

definition error_toast :: "pg_error \<Rightarrow> toast" where
  "error_toast error =
     (let errorMsg = (if message error = [] then ''Unknown error'' else message error)
      in \<lparr>t_title = ''Error'',
          t_description = (if errorMsg = [] then ''Failed to create booking'' else errorMsg),
          t_destructive = True\<rparr>)"

text \<open>
  The object \<^verbatim>\<open>handleSubmit\<close> inserts; \<open>new_id\<close> is the id and \<open>now\<close> the \<^verbatim>\<open>updated_at\<close>
  the store's column defaults give the new row.
\<close>

definition inserted_row :: "caller \<Rightarrow> uuid \<Rightarrow> timestamp \<Rightarrow> booking_form \<Rightarrow> room_booking" where
  "inserted_row user new_id now form =
     \<lparr>b_id = new_id,
      b_title = trim (f_title form),
      b_description =
        (if trim (f_description form) = [] then None else Some (trim (f_description form))),
      b_room_id = f_roomId form,
      b_user_id = uid user,
      b_start_time = f_startDateTime form,
      b_end_time = f_endDateTime form,
      b_status = Pending,
      b_updated_at = now,
      b_approved_by = None,
      b_approved_at = None\<rparr>"

text \<open>
  \<^verbatim>\<open>handleSubmit\<close>. \<open>validateForm\<close> is the outcome of the form validation that guards the
  handler.
\<close>

definition handleSubmit ::
  "supabase \<Rightarrow> bool \<Rightarrow> uuid \<Rightarrow> timestamp \<Rightarrow> booking_form \<Rightarrow> create_dialog
     \<Rightarrow> supabase \<times> create_dialog" where
  "handleSubmit sb validateForm new_id now form st =
     (if \<not> validateForm then (sb, st)
      else
        (case getCurrentUser sb of
           None \<Rightarrow>
             (sb, st\<lparr>cd_toasts := cd_toasts st @
                       [\<lparr>t_title = ''Error'', t_description = ''Not authenticated'',
                         t_destructive = True\<rparr>]\<rparr>)
         | Some user \<Rightarrow>
             (case request_insert sb (inserted_row user new_id now form) of
                Inl error \<Rightarrow>
                  (if is_conflict_error error
                   then (sb, st\<lparr>cd_toasts := cd_toasts st @ [conflict_toast]\<rparr>)
                   else (sb, st\<lparr>cd_toasts := cd_toasts st @ [error_toast error]\<rparr>))
              | Inr d \<Rightarrow>
                  (sb\<lparr>tables := d\<rparr>,
                   st\<lparr>cd_toasts := cd_toasts st @
                        [\<lparr>t_title = ''Success'', t_description = ''Room booked successfully'',
                          t_destructive = False\<rparr>],
                      cd_open := False\<rparr>))))"

section \<open>Reachable states of the bookings store\<close>

text \<open>
  The store starts as the migration that adds the exclusion constraint leaves it (the
  \<^verbatim>\<open>ALTER TABLE ... ADD CONSTRAINT\<close> fails on a table that violates the constraint; ids
  are the primary key), for instance empty, and changes by the four statements the code
  sends:
  the insert of \<^verbatim>\<open>handleSubmit\<close> and the updates of \<^verbatim>\<open>handleApprove\<close>, \<^verbatim>\<open>handleReject\<close> and
  \<^verbatim>\<open>handleCancel\<close>, sent by any caller, for any row and at any time.
\<close>

inductive reachable :: "database \<Rightarrow> bool" where
  initial:
    "distinct (map b_id (room_bookings d)) \<Longrightarrow> no_overlapping_bookings (room_bookings d)
     \<Longrightarrow> reachable d"
| creation: "reachable d \<Longrightarrow> db_insert c r d = Inr d' \<Longrightarrow> reachable d'"
| approval: "reachable d \<Longrightarrow> db_update c bid approve_payload d = Inr d' \<Longrightarrow> reachable d'"
| rejection: "reachable d \<Longrightarrow> db_update c bid reject_payload d = Inr d' \<Longrightarrow> reachable d'"
| cancellation:
    "reachable d \<Longrightarrow> db_update c bid (cancel_payload now) d = Inr d' \<Longrightarrow> reachable d'"

text \<open>The invariant of the spec: approved bookings of one room have disjoint half-open
  intervals.\<close>

definition approved_disjoint :: "room_booking list \<Rightarrow> bool" where
  "approved_disjoint rows =
     (\<forall>a \<in> set rows. \<forall>b \<in> set rows.
        b_id a \<noteq> b_id b \<and> b_room_id a = b_room_id b
        \<and> b_status a = Approved \<and> b_status b = Approved
        \<longrightarrow> \<not> (b_start_time a < b_end_time b \<and> b_start_time b < b_end_time a))"

text \<open>The interval overlap predicate in the words of the spec (section 4.1):
  \<^verbatim>\<open>a_start < b_end AND b_start < a_end\<close>.\<close>

definition half_open_overlap :: "timestamp \<Rightarrow> timestamp \<Rightarrow> timestamp \<Rightarrow> timestamp \<Rightarrow> bool" where
  "half_open_overlap a_start a_end b_start b_end = (a_start < b_end \<and> b_start < a_end)"

section \<open>Auxiliary notions for the proofs\<close>

text \<open>What the primary key and the exclusion constraint keep true of the table.\<close>

definition store_inv :: "room_booking list \<Rightarrow> bool" where
  "store_inv rows = (distinct (map b_id rows) \<and> no_overlapping_bookings rows)"

text \<open>An update payload that leaves id, room and interval of a row alone.\<close>

definition keeps_slot :: "(room_booking \<Rightarrow> room_booking) \<Rightarrow> bool" where
  "keeps_slot f =
     (\<forall>r. b_id (f r) = b_id r \<and> b_room_id (f r) = b_room_id r
          \<and> b_start_time (f r) = b_start_time r \<and> b_end_time (f r) = b_end_time r)"

text \<open>The booking has a room row and a profile row for the inner joins to find.\<close>

definition joinable :: "database \<Rightarrow> room_booking \<Rightarrow> bool" where
  "joinable d r =
     (map_of (meeting_rooms d) (b_room_id r) \<noteq> None
      \<and> map_of (profiles d) (b_user_id r) \<noteq> None)"

text \<open>
  The conflict set in the words of the spec (section 4.2): the bookings of the room whose
  status is in the given set, other than the excluded id, whose interval overlaps the
  interval \<open>[s, e)\<close> by the half-open rule; of these, the ones the store shows to the
  caller, in table order.
\<close>

definition matching_bookings ::
  "supabase \<Rightarrow> uuid \<Rightarrow> booking_status list \<Rightarrow> uuid option \<Rightarrow> timestamp \<Rightarrow> timestamp
     \<Rightarrow> room_booking list" where
  "matching_bookings sb roomId statuses exclude s e =
     filter (\<lambda>r. select_policy (auth_user sb) r
                 \<and> b_room_id r = roomId \<and> b_status r \<in> set statuses
                 \<and> Some (b_id r) \<noteq> exclude
                 \<and> half_open_overlap (b_start_time r) (b_end_time r) s e)
       (room_bookings (tables sb))"

text \<open>A booking with the room name and the requester's display name looked up.\<close>

definition enriched :: "database \<Rightarrow> room_booking \<Rightarrow> ConflictingBooking" where
  "enriched d r =
     \<lparr>cb_id = b_id r,
      cb_title = b_title r,
      cb_room_name = (case map_of (meeting_rooms d) (b_room_id r) of None \<Rightarrow> [] | Some n \<Rightarrow> n),
      cb_start_time = b_start_time r,
      cb_end_time = b_end_time r,
      cb_user_name =
        (case map_of (profiles d) (b_user_id r) of
           None \<Rightarrow> []
         | Some (fn, ln) \<Rightarrow> user_name_of fn ln)\<rparr>"

section \<open>Example data\<close>

text \<open>One room, four users (Cy is an admin, Lea a leader), times in minutes of one day:
  600 is 10:00, 660 is 11:00.\<close>

definition ex_booking ::
  "uuid \<Rightarrow> uuid \<Rightarrow> timestamp \<Rightarrow> timestamp \<Rightarrow> booking_status \<Rightarrow> room_booking" where
  "ex_booking i u s e st =
     \<lparr>b_id = i, b_title = ''Sync'', b_description = None, b_room_id = ''room-x'',
      b_user_id = u, b_start_time = s, b_end_time = e, b_status = st, b_updated_at = 0,
      b_approved_by = None, b_approved_at = None\<rparr>"

definition ex_store :: "room_booking list \<Rightarrow> database" where
  "ex_store rows =
     \<lparr>room_bookings = rows,
      meeting_rooms = [(''room-x'', ''Room X'')],
      profiles = [(''ann'', Some ''Ann'', Some ''Lee''), (''bob'', Some ''Bob'', None),
                  (''cy'', Some ''Cy'', Some ''Ng''), (''lea'', Some ''Lea'', Some ''Roy'')]\<rparr>"

definition ann :: caller where
  "ann = \<lparr>uid = ''ann'', roles = [Staff]\<rparr>"

definition bob :: caller where
  "bob = \<lparr>uid = ''bob'', roles = [Staff]\<rparr>"

definition cy :: caller where
  "cy = \<lparr>uid = ''cy'', roles = [Admin]\<rparr>"

definition lea :: caller where
  "lea = \<lparr>uid = ''lea'', roles = [Leader]\<rparr>"

text \<open>A client in a browser at UTC, and one in a browser \<open>off\<close> minutes east of UTC.\<close>

definition ex_client :: "caller \<Rightarrow> room_booking list \<Rightarrow> supabase" where
  "ex_client c rows =
     \<lparr>auth_user = Some c, outage = None, utc_offset = 0, tables = ex_store rows\<rparr>"

definition ex_client_at :: "int \<Rightarrow> caller \<Rightarrow> room_booking list \<Rightarrow> supabase" where
  "ex_client_at off c rows =
     \<lparr>auth_user = Some c, outage = None, utc_offset = off, tables = ex_store rows\<rparr>"

definition network_error :: pg_error where
  "network_error = \<lparr>code = [], message = ''TypeError: Failed to fetch''\<rparr>"

definition ex_view :: approval_view where
  "ex_view =
     \<lparr>bookings = [], loading = False, selectedBooking = None, conflicts = [],
      approvalDialogOpen = False, processingBookingId = [], toasts = []\<rparr>"

definition ex_my :: my_bookings where
  "ex_my = \<lparr>mb_bookings = [], mb_loading = False, mb_cancelingId = None, mb_toasts = []\<rparr>"

definition ex_dialog :: create_dialog where
  "ex_dialog = \<lparr>cd_open = True, cd_toasts = []\<rparr>"

definition ex_form :: "timestamp \<Rightarrow> timestamp \<Rightarrow> booking_form" where
  "ex_form s e =
     \<lparr>f_title = ''Sync'', f_description = [], f_roomId = ''room-x'',
      f_startDateTime = s, f_endDateTime = e\<rparr>"

definition ex_pending :: "uuid \<Rightarrow> uuid \<Rightarrow> timestamp \<Rightarrow> timestamp \<Rightarrow> PendingBooking" where
  "ex_pending i u s e =
     \<lparr>pb_id = i, pb_title = ''Sync'', pb_room_id = ''room-x'', pb_room_name = ''Room X'',
      pb_start_time = s, pb_end_time = e, pb_user_id = u, pb_user_name = ''Ann Lee'',
      pb_description = None\<rparr>"

section \<open>The store invariant\<close>

lemma exclusion_conflict_sym: "exclusion_conflict a b = exclusion_conflict b a"
  by (auto simp: exclusion_conflict_def tsrange_overlap_def)

lemma store_inv_insert:
  assumes "store_inv (room_bookings d)" and "db_insert c r d = Inr d'"
  shows "store_inv (room_bookings d')"
proof -
  from assms(2) have fresh: "b_id r \<notin> set (map b_id (room_bookings d))"
    and free: "\<forall>x \<in> set (room_bookings d). \<not> exclusion_conflict x r"
    and d': "room_bookings d' = room_bookings d @ [r]"
    by (auto simp: db_insert_def split: if_splits)
  from free have free': "\<forall>x \<in> set (room_bookings d). \<not> exclusion_conflict r x"
    using exclusion_conflict_sym by blast
  from assms(1) fresh have "distinct (map b_id (room_bookings d @ [r]))"
    by (simp add: store_inv_def)
  moreover from assms(1) free free' have "no_overlapping_bookings (room_bookings d @ [r])"
    by (auto simp: store_inv_def no_overlapping_bookings_def)
  ultimately show ?thesis by (simp add: d' store_inv_def)
qed

lemma keeps_slot_payloads:
  "keeps_slot approve_payload" "keeps_slot reject_payload" "keeps_slot (cancel_payload now)"
  by (simp_all add: keeps_slot_def approve_payload_def reject_payload_def cancel_payload_def)

lemma store_inv_map:
  assumes "store_inv rows" and "keeps_slot f"
  shows "store_inv (map (\<lambda>r. if P r then f r else r) rows)"
proof -
  let ?g = "\<lambda>r. if P r then f r else r"
  from assms(2) have gid: "\<And>r. b_id (?g r) = b_id r"
    by (simp add: keeps_slot_def)
  from assms(2) have gex: "\<And>a b. exclusion_conflict (?g a) (?g b) = exclusion_conflict a b"
    by (simp add: keeps_slot_def exclusion_conflict_def)
  have ids: "map b_id (map ?g rows) = map b_id rows"
    unfolding map_map comp_def using gid by simp
  have "no_overlapping_bookings (map ?g rows)"
    unfolding no_overlapping_bookings_def
  proof (intro ballI impI)
    fix a b assume a: "a \<in> set (map ?g rows)" and b: "b \<in> set (map ?g rows)"
      and ne: "b_id a \<noteq> b_id b"
    from a obtain a0 where a0: "a0 \<in> set rows" "a = ?g a0" by auto
    from b obtain b0 where b0: "b0 \<in> set rows" "b = ?g b0" by auto
    from ne a0 b0 gid have "b_id a0 \<noteq> b_id b0" by metis
    with assms(1) a0(1) b0(1) have "\<not> exclusion_conflict a0 b0"
      by (simp add: store_inv_def no_overlapping_bookings_def)
    then show "\<not> exclusion_conflict a b" unfolding a0(2) b0(2) gex .
  qed
  moreover from assms(1) have "distinct (map b_id (map ?g rows))"
    unfolding ids by (simp add: store_inv_def)
  ultimately show ?thesis unfolding store_inv_def by simp
qed

lemma store_inv_update:
  assumes "store_inv (room_bookings d)" and "keeps_slot f" and "db_update c bid f d = Inr d'"
  shows "store_inv (room_bookings d')"
proof -
  from assms(3) have "room_bookings d' =
      map (\<lambda>r. if b_id r = bid \<and> select_policy c r \<and> update_using c r then f r else r) (room_bookings d)"
    by (auto simp: db_update_def Let_def split: if_splits)
  then show ?thesis using store_inv_map [OF assms(1,2)] by simp
qed

lemma reachable_store_inv: "reachable d \<Longrightarrow> store_inv (room_bookings d)"
proof (induction rule: reachable.induct)
  case (initial d)
  then show ?case by (simp add: store_inv_def)
next
  case (creation d c r d')
  then show ?case using store_inv_insert by blast
next
  case (approval d c bid d')
  then show ?case using store_inv_update keeps_slot_payloads(1) by blast
next
  case (rejection d c bid d')
  then show ?case using store_inv_update keeps_slot_payloads(2) by blast
next
  case (cancellation d c bid now d')
  then show ?case using store_inv_update keeps_slot_payloads(3) by blast
qed

lemma half_open_imp_exclusion_conflict:
  "b_room_id a = b_room_id b \<Longrightarrow> b_start_time a < b_end_time b \<Longrightarrow> b_start_time b < b_end_time a
   \<Longrightarrow> exclusion_conflict a b"
  by (simp add: exclusion_conflict_def tsrange_overlap_def)

lemma store_inv_approved_disjoint: "store_inv rows \<Longrightarrow> approved_disjoint rows"
  unfolding store_inv_def no_overlapping_bookings_def approved_disjoint_def
  using half_open_imp_exclusion_conflict by blast

lemma insert_would_violate_fails:
  assumes "store_inv (room_bookings d)" and "\<not> approved_disjoint (room_bookings d @ [r])"
  shows "\<exists>e. db_insert c r d = Inl e"
proof (cases "db_insert c r d")
  case (Inl e) then show ?thesis by blast
next
  case (Inr d')
  then have "room_bookings d' = room_bookings d @ [r]"
    by (auto simp: db_insert_def split: if_splits)
  with store_inv_insert [OF assms(1) Inr] store_inv_approved_disjoint assms(2)
  show ?thesis by metis
qed

lemma approve_would_violate_never:
  assumes "store_inv rows"
  shows "approved_disjoint (map (\<lambda>r. if b_id r = bid then approve_payload r else r) rows)"
  using store_inv_approved_disjoint [OF store_inv_map [OF assms keeps_slot_payloads(1)]] .

text \<open>
  Claim C1. In every reachable state of the bookings store no two approved bookings of
  one room have overlapping half-open intervals; an insert, and an approval, that would
  create such a pair fails; and every statement that succeeds (creation, approval,
  rejection, cancellation) leaves a store in which the invariant holds. The store gets
  there by a stronger rule: \<open>no_overlapping_bookings\<close> keeps the closed intervals of any
  two bookings of one room apart, whatever their status.
\<close>

theorem approved_bookings_never_overlap:
  assumes "reachable d"
  shows "approved_disjoint (room_bookings d)
    \<and> (\<forall>c r. \<not> approved_disjoint (room_bookings d @ [r]) \<longrightarrow> (\<exists>e. db_insert c r d = Inl e))
    \<and> (\<forall>c bid. \<not> approved_disjoint
                    (map (\<lambda>r. if b_id r = bid then approve_payload r else r) (room_bookings d))
               \<longrightarrow> (\<exists>e. db_update c bid approve_payload d = Inl e))
    \<and> (\<forall>c r d'. db_insert c r d = Inr d' \<longrightarrow> approved_disjoint (room_bookings d'))
    \<and> (\<forall>c bid d'. db_update c bid approve_payload d = Inr d'
          \<longrightarrow> approved_disjoint (room_bookings d'))
    \<and> (\<forall>c bid d'. db_update c bid reject_payload d = Inr d'
          \<longrightarrow> approved_disjoint (room_bookings d'))
    \<and> (\<forall>c bid now d'. db_update c bid (cancel_payload now) d = Inr d'
          \<longrightarrow> approved_disjoint (room_bookings d'))"
proof -
  from assms have inv: "store_inv (room_bookings d)" by (rule reachable_store_inv)
  have 1: "approved_disjoint (room_bookings d)"
    using inv by (rule store_inv_approved_disjoint)
  have 2: "\<forall>c r. \<not> approved_disjoint (room_bookings d @ [r]) \<longrightarrow> (\<exists>e. db_insert c r d = Inl e)"
    using insert_would_violate_fails [OF inv] by blast
  have 3: "\<forall>c bid. \<not> approved_disjoint
                    (map (\<lambda>r. if b_id r = bid then approve_payload r else r) (room_bookings d))
               \<longrightarrow> (\<exists>e. db_update c bid approve_payload d = Inl e)"
    using approve_would_violate_never [OF inv] by blast
  have 4: "\<forall>c r d'. db_insert c r d = Inr d' \<longrightarrow> approved_disjoint (room_bookings d')"
    using store_inv_insert [OF inv] store_inv_approved_disjoint by blast
  have upd: "\<And>f c bid d'. keeps_slot f \<Longrightarrow> db_update c bid f d = Inr d'
      \<Longrightarrow> approved_disjoint (room_bookings d')"
    using store_inv_update [OF inv] store_inv_approved_disjoint by blast
  have 5: "\<forall>c bid d'. db_update c bid approve_payload d = Inr d'
          \<longrightarrow> approved_disjoint (room_bookings d')"
    using upd [OF keeps_slot_payloads(1)] by blast
  have 6: "\<forall>c bid d'. db_update c bid reject_payload d = Inr d'
          \<longrightarrow> approved_disjoint (room_bookings d')"
    using upd [OF keeps_slot_payloads(2)] by blast
  have 7: "\<forall>c bid now d'. db_update c bid (cancel_payload now) d = Inr d'
          \<longrightarrow> approved_disjoint (room_bookings d')"
    using upd [OF keeps_slot_payloads(3)] by blast
  from 1 2 3 4 5 6 7 show ?thesis by blast
qed

lemma ex_insert: "db_insert (Some ann) (ex_booking ''b1'' ''ann'' 600 660 Pending) (ex_store [])
    = Inr (ex_store [ex_booking ''b1'' ''ann'' 600 660 Pending])"
  by (simp add: db_insert_def insert_check_def auth_uid_is_def ann_def ex_booking_def
      ex_store_def valid_booking_time_range_def)

lemma ex_approve: "db_update (Some cy) ''b1'' approve_payload (ex_store [ex_booking ''b1'' ''ann'' 600 660 Pending])
    = Inr (ex_store [ex_booking ''b1'' ''ann'' 600 660 Approved])"
  by (simp add: db_update_def select_policy_def update_using_def update_check_def has_role_def
      auth_uid_is_def cy_def ex_booking_def ex_store_def valid_booking_time_range_def
      approve_payload_def Let_def)

lemma ex_reachable: "reachable (ex_store [ex_booking ''b1'' ''ann'' 600 660 Approved])"
proof -
  have "reachable (ex_store [])"
    by (rule reachable.initial) (simp_all add: ex_store_def no_overlapping_bookings_def)
  then have "reachable (ex_store [ex_booking ''b1'' ''ann'' 600 660 Pending])"
    using ex_insert by (rule reachable.creation)
  then show ?thesis using ex_approve by (rule reachable.approval)
qed

lemma ex_would_overlap:
  "\<not> approved_disjoint (room_bookings (ex_store [ex_booking ''b1'' ''ann'' 600 660 Approved])
        @ [ex_booking ''b2'' ''cy'' 630 690 Approved])"
  by (simp add: approved_disjoint_def ex_store_def ex_booking_def)

text \<open>The store after Ann has booked 10:00 to 11:00 and Cy has approved it: the invariant
  holds, and inserting an approved booking for 10:30 to 11:30 fails.\<close>

theorem approved_bookings_never_overlap_witness:
  "reachable (ex_store [ex_booking ''b1'' ''ann'' 600 660 Approved])
   \<and> approved_disjoint (room_bookings (ex_store [ex_booking ''b1'' ''ann'' 600 660 Approved]))
   \<and> (\<exists>e. db_insert (Some cy) (ex_booking ''b2'' ''cy'' 630 690 Approved)
             (ex_store [ex_booking ''b1'' ''ann'' 600 660 Approved]) = Inl e)"
  using approved_bookings_never_overlap [OF ex_reachable] ex_reachable ex_would_overlap
  by blast

section \<open>The pre-submission check ignores its last argument\<close>

text \<open>
  Claim C10. \<^verbatim>\<open>checkBookingAvailability\<close> returns the same result for any two values of
  \<^verbatim>\<open>excludeBookingId\<close>, given or omitted: the parameter is not used in the query.
\<close>

theorem checkBookingAvailability_ignores_exclude:
  "checkBookingAvailability sb roomId startTime endTime x
   = checkBookingAvailability sb roomId startTime endTime y"
  by (simp add: checkBookingAvailability_def)

theorem checkBookingAvailability_ignores_exclude_witness:
  "checkBookingAvailability (ex_client bob [ex_booking ''b1'' ''ann'' 600 660 Approved])
     ''room-x'' (Some 630) (Some 690) (Some ''b1'')
   = checkBookingAvailability (ex_client bob [ex_booking ''b1'' ''ann'' 600 660 Approved])
     ''room-x'' (Some 630) (Some 690) None"
  using checkBookingAvailability_ignores_exclude
    [of "ex_client bob [ex_booking ''b1'' ''ann'' 600 660 Approved]" "''room-x''"
        "Some 630" "Some 690" "Some ''b1''" None]
  by simp

section \<open>What the two availability queries return\<close>

lemma trim_examples:
  "trim [] = []"
  "trim ''Sync'' = ''Sync''"
  "trim ''Ann Lee'' = ''Ann Lee''"
  "trim ''Bob null'' = ''Bob null''"
  "trim ''Cy Ng'' = ''Cy Ng''"
  "trim ''Lea Roy'' = ''Lea Roy''"
  by (simp_all add: trim_def strip_leading.simps white_space_def)

text \<open>White space beyond ASCII is trimmed as well: a space and U+00A0 in front, U+2028
  and a tab behind.\<close>

lemma trim_unicode:
  "trim ([CHR 0x20, CHR 0xC2, CHR 0xA0] @ ''Ann Lee'' @ [CHR 0xE2, CHR 0x80, CHR 0xA8, CHR 0x09])
     = ''Ann Lee''"
  by (simp add: trim_def strip_leading.simps white_space_def)

lemma inner_join_joinable: "(inner_join d r \<noteq> None) = joinable d r"
  by (auto simp: inner_join_def joinable_def split: option.splits)

lemma conflict_of_inner_join:
  "inner_join d r = Some j \<Longrightarrow> conflict_of j = enriched d r"
  by (auto simp: inner_join_def conflict_of_def enriched_def split: option.splits)

lemma map_filter_inner_join:
  "map conflict_of (List.map_filter (inner_join d) rs) = map (enriched d) (filter (joinable d) rs)"
proof (induction rs)
  case Nil
  then show ?case by (simp add: List.map_filter_simps)
next
  case (Cons r rs)
  show ?case
  proof (cases "inner_join d r")
    case None
    then have "\<not> joinable d r" using inner_join_joinable [of d r] by simp
    with None Cons show ?thesis by (simp add: List.map_filter_simps)
  next
    case (Some j)
    then have "joinable d r" using inner_join_joinable [of d r] by simp
    with Some Cons conflict_of_inner_join [OF Some] show ?thesis
      by (simp add: List.map_filter_simps)
  qed
qed

lemma sent_times:
  "toISOString (new_Date off (Some t)) = Some (t - off)"
  by (simp add: toISOString_def new_Date_def)

lemma getConflictingBookings_matching:
  assumes "outage sb = None"
  shows "getConflictingBookings sb roomId (Some s) (Some e) x
     = map (enriched (tables sb)) (filter (joinable (tables sb))
         (matching_bookings sb roomId [Approved, Pending] (Some x)
            (s - utc_offset sb) (e - utc_offset sb)))"
proof -
  have "getConflictingBookings sb roomId (Some s) (Some e) x
     = map (enriched (tables sb)) (filter (joinable (tables sb))
         (filter (\<lambda>r. select_policy (auth_user sb) r \<and> b_room_id r = roomId
            \<and> b_id r \<noteq> x \<and> (b_status r = Approved \<or> b_status r = Pending)
            \<and> b_start_time r < e - utc_offset sb \<and> b_end_time r > s - utc_offset sb)
          (room_bookings (tables sb))))"
    using assms
    by (simp only: getConflictingBookings_def Let_def sent_times select_joined_def
        map_filter_inner_join option.case sum.case)
  also have "\<dots> = map (enriched (tables sb)) (filter (joinable (tables sb))
        (matching_bookings sb roomId [Approved, Pending] (Some x)
            (s - utc_offset sb) (e - utc_offset sb)))"
    unfolding matching_bookings_def
    by (rule arg_cong [where f = "\<lambda>xs. map (enriched (tables sb)) (filter (joinable (tables sb)) xs)"],
        rule filter_cong) (auto simp: half_open_overlap_def)
  finally show ?thesis .
qed

lemma checkBookingAvailability_matching:
  assumes "outage sb = None"
  shows "checkBookingAvailability sb roomId (Some s) (Some e) y
     = (case filter (joinable (tables sb))
               (matching_bookings sb roomId [Approved] None
                  (s - utc_offset sb) (e - utc_offset sb)) of
          [] \<Rightarrow> None | r # rest \<Rightarrow> Some (enriched (tables sb) r))"
proof -
  let ?flt = "\<lambda>r. select_policy (auth_user sb) r \<and> (b_room_id r = roomId \<and> b_status r = Approved
            \<and> b_start_time r < e - utc_offset sb \<and> b_end_time r > s - utc_offset sb)"
  let ?js = "List.map_filter (inner_join (tables sb)) (filter ?flt (room_bookings (tables sb)))"
  let ?m = "filter (joinable (tables sb))
               (matching_bookings sb roomId [Approved] None
                  (s - utc_offset sb) (e - utc_offset sb))"
  have m: "filter (joinable (tables sb)) (filter ?flt (room_bookings (tables sb))) = ?m"
    unfolding matching_bookings_def
    by (rule arg_cong [where f = "filter (joinable (tables sb))"], rule filter_cong)
       (auto simp: half_open_overlap_def)
  have "checkBookingAvailability sb roomId (Some s) (Some e) y
      = (case ?js of [] \<Rightarrow> None | c # rest \<Rightarrow> Some (conflict_of c))"
    using assms
    by (simp only: checkBookingAvailability_def Let_def sent_times select_joined_def
        option.case sum.case)
  also have "\<dots> = (case map conflict_of ?js of [] \<Rightarrow> None | c # rest \<Rightarrow> Some c)"
    by (cases ?js) simp_all
  also have "\<dots> = (case map (enriched (tables sb)) ?m of [] \<Rightarrow> None | c # rest \<Rightarrow> Some c)"
    unfolding map_filter_inner_join m ..
  also have "\<dots> = (case ?m of [] \<Rightarrow> None | r # rest \<Rightarrow> Some (enriched (tables sb) r))"
    by (cases ?m) simp_all
  finally show ?thesis .
qed

lemma all_joinable_filter:
  "\<forall>r \<in> set (room_bookings (tables sb)). joinable (tables sb) r
   \<Longrightarrow> filter (joinable (tables sb)) (matching_bookings sb roomId sts ex s e)
       = matching_bookings sb roomId sts ex s e"
  unfolding matching_bookings_def filter_filter
  by (rule filter_cong) auto

lemmas client_eval =
  getConflictingBookings_def checkBookingAvailability_def new_Date_def toISOString_def Let_def
  select_joined_def inner_join_def conflict_of_def user_name_of_def trim_examples js_template_def
  select_policy_def auth_uid_is_def has_role_def List.map_filter_simps

lemmas example_eval =
  ex_client_def ex_client_at_def ex_store_def ex_booking_def ann_def bob_def cy_def lea_def

lemmas store_eval =
  db_insert_def db_update_def insert_check_def update_using_def update_check_def
  select_policy_def auth_uid_is_def has_role_def valid_booking_time_range_def
  exclusion_conflict_def tsrange_overlap_def

lemma joinable_enriched:
  assumes "joinable d r"
  shows "\<exists>n fn ln. map_of (meeting_rooms d) (b_room_id r) = Some n
      \<and> map_of (profiles d) (b_user_id r) = Some (fn, ln)
      \<and> cb_room_name (enriched d r) = n
      \<and> cb_user_name (enriched d r) = user_name_of fn ln"
proof -
  from assms obtain n p where n: "map_of (meeting_rooms d) (b_room_id r) = Some n"
    and p: "map_of (profiles d) (b_user_id r) = Some p"
    by (auto simp: joinable_def)
  obtain fn ln where "p = (fn, ln)" by (cases p)
  with n p show ?thesis by (auto simp: enriched_def)
qed

text \<open>
  Claim C4, as amended. When the query succeeds, \<^verbatim>\<open>getConflictingBookings\<close> returns, in the
  order of the table and not sorted by start time, every booking of the conflict set
  (visible to the caller, approved or pending, same room, not the excluded id,
  overlapping by the half-open rule the interval the query sends for the candidate,
  which is the candidate interval itself at UTC offset 0) that has its room row and its
  requester's profile row: the inner joins of the query drop a booking without them.
  Each returned booking carries the room name and the requester's display name. The
  list is empty exactly when no such booking exists; in a store where every booking has
  both rows that is exactly when the conflict set is empty. \<^verbatim>\<open>checkBookingAvailability\<close>
  returns only the first such approved booking, or null when there is none.
\<close>

theorem conflicts_complete_in_table_order:
  assumes "outage sb = None"
  shows "getConflictingBookings sb roomId (Some s) (Some e) x
      = map (enriched (tables sb)) (filter (joinable (tables sb))
          (matching_bookings sb roomId [Approved, Pending] (Some x)
             (s - utc_offset sb) (e - utc_offset sb)))
    \<and> ((getConflictingBookings sb roomId (Some s) (Some e) x = [])
        = (filter (joinable (tables sb))
             (matching_bookings sb roomId [Approved, Pending] (Some x)
                (s - utc_offset sb) (e - utc_offset sb)) = []))
    \<and> ((\<forall>r \<in> set (room_bookings (tables sb)). joinable (tables sb) r) \<longrightarrow>
          getConflictingBookings sb roomId (Some s) (Some e) x
          = map (enriched (tables sb))
              (matching_bookings sb roomId [Approved, Pending] (Some x)
                 (s - utc_offset sb) (e - utc_offset sb))
          \<and> ((getConflictingBookings sb roomId (Some s) (Some e) x = [])
              = (matching_bookings sb roomId [Approved, Pending] (Some x)
                   (s - utc_offset sb) (e - utc_offset sb) = [])))
    \<and> (utc_offset sb = 0 \<longrightarrow>
          getConflictingBookings sb roomId (Some s) (Some e) x
          = map (enriched (tables sb)) (filter (joinable (tables sb))
              (matching_bookings sb roomId [Approved, Pending] (Some x) s e)))
    \<and> (\<forall>r \<in> set (room_bookings (tables sb)). joinable (tables sb) r \<longrightarrow>
          (\<exists>n fn ln. map_of (meeting_rooms (tables sb)) (b_room_id r) = Some n
            \<and> map_of (profiles (tables sb)) (b_user_id r) = Some (fn, ln)
            \<and> cb_room_name (enriched (tables sb) r) = n
            \<and> cb_user_name (enriched (tables sb) r) = user_name_of fn ln))
    \<and> checkBookingAvailability sb roomId (Some s) (Some e) y
      = (case filter (joinable (tables sb))
                (matching_bookings sb roomId [Approved] None
                   (s - utc_offset sb) (e - utc_offset sb)) of
           [] \<Rightarrow> None
         | r # rest \<Rightarrow> Some (enriched (tables sb) r))"
proof -
  note g = getConflictingBookings_matching [OF assms, of roomId s e x]
  have 1: "(getConflictingBookings sb roomId (Some s) (Some e) x = [])
        = (filter (joinable (tables sb))
             (matching_bookings sb roomId [Approved, Pending] (Some x)
                (s - utc_offset sb) (e - utc_offset sb)) = [])"
    unfolding g by simp
  have 2: "(\<forall>r \<in> set (room_bookings (tables sb)). joinable (tables sb) r) \<longrightarrow>
          getConflictingBookings sb roomId (Some s) (Some e) x
          = map (enriched (tables sb))
              (matching_bookings sb roomId [Approved, Pending] (Some x)
                 (s - utc_offset sb) (e - utc_offset sb))
          \<and> ((getConflictingBookings sb roomId (Some s) (Some e) x = [])
              = (matching_bookings sb roomId [Approved, Pending] (Some x)
                   (s - utc_offset sb) (e - utc_offset sb) = []))"
    unfolding g using all_joinable_filter [of sb] by simp
  have 3: "utc_offset sb = 0 \<longrightarrow>
          getConflictingBookings sb roomId (Some s) (Some e) x
          = map (enriched (tables sb)) (filter (joinable (tables sb))
              (matching_bookings sb roomId [Approved, Pending] (Some x) s e))"
    unfolding g by simp
  have 4: "\<forall>r \<in> set (room_bookings (tables sb)). joinable (tables sb) r \<longrightarrow>
          (\<exists>n fn ln. map_of (meeting_rooms (tables sb)) (b_room_id r) = Some n
            \<and> map_of (profiles (tables sb)) (b_user_id r) = Some (fn, ln)
            \<and> cb_room_name (enriched (tables sb) r) = n
            \<and> cb_user_name (enriched (tables sb) r) = user_name_of fn ln)"
    using joinable_enriched by blast
  from g 1 2 3 4 checkBookingAvailability_matching [OF assms, of roomId s e y]
  show ?thesis by blast
qed

text \<open>Four bookings of which three overlap 08:20 to 13:20; the one of Dan, who has no
  profile row, is dropped; Bob's profile has no last name, which the template literal
  prints as \<^verbatim>\<open>null\<close>.\<close>

theorem conflicts_complete_in_table_order_witness:
  "map cb_id (getConflictingBookings
      (ex_client cy [ex_booking ''b1'' ''ann'' 700 750 Approved,
                     ex_booking ''b2'' ''bob'' 600 650 Pending,
                     ex_booking ''b3'' ''ann'' 900 960 Pending,
                     ex_booking ''b4'' ''dan'' 520 560 Pending])
      ''room-x'' (Some 500) (Some 800) ''b0'') = [''b1'', ''b2'']
   \<and> map cb_user_name (getConflictingBookings
      (ex_client cy [ex_booking ''b1'' ''ann'' 700 750 Approved,
                     ex_booking ''b2'' ''bob'' 600 650 Pending,
                     ex_booking ''b3'' ''ann'' 900 960 Pending,
                     ex_booking ''b4'' ''dan'' 520 560 Pending])
      ''room-x'' (Some 500) (Some 800) ''b0'') = [''Ann Lee'', ''Bob null'']"
proof -
  let ?sb = "ex_client cy [ex_booking ''b1'' ''ann'' 700 750 Approved,
                     ex_booking ''b2'' ''bob'' 600 650 Pending,
                     ex_booking ''b3'' ''ann'' 900 960 Pending,
                     ex_booking ''b4'' ''dan'' 520 560 Pending]"
  have o: "outage ?sb = None" by (simp add: ex_client_def)
  note th = conflicts_complete_in_table_order [OF o, of "''room-x''" 500 800 "''b0''" None]
  then have "getConflictingBookings ?sb ''room-x'' (Some 500) (Some 800) ''b0''
      = map (enriched (tables ?sb)) (filter (joinable (tables ?sb))
          (matching_bookings ?sb ''room-x'' [Approved, Pending] (Some ''b0'')
             (500 - utc_offset ?sb) (800 - utc_offset ?sb)))"
    by blast
  then show ?thesis
    by (simp add: matching_bookings_def enriched_def joinable_def half_open_overlap_def
        user_name_of_def trim_examples js_template_def
        select_policy_def auth_uid_is_def has_role_def example_eval)
qed

text \<open>
  Claim C4 as stated fails: the conflicts come back in table order (start times 700 then
  600), and \<^verbatim>\<open>checkBookingAvailability\<close> returns a single booking, the first row, where
  two approved bookings conflict.
\<close>

theorem conflicts_unordered_counterexample:
  "map cb_start_time (getConflictingBookings
      (ex_client cy [ex_booking ''b1'' ''ann'' 700 750 Approved,
                     ex_booking ''b2'' ''bob'' 600 650 Pending])
      ''room-x'' (Some 500) (Some 800) ''b0'') = [700, 600]
   \<and> map_option cb_id (checkBookingAvailability
      (ex_client bob [ex_booking ''b1'' ''ann'' 700 750 Approved,
                      ex_booking ''b2'' ''bob'' 600 650 Approved])
      ''room-x'' (Some 500) (Some 800) None) = Some ''b1''"
  by (simp add: client_eval example_eval)

section \<open>The overlap rule of the client and of the store\<close>

lemma checkBookingAvailability_reports:
  assumes "outage sb = None"
  shows "(checkBookingAvailability sb roomId (Some s) (Some e) y \<noteq> None)
     = (\<exists>r \<in> set (room_bookings (tables sb)).
          joinable (tables sb) r \<and> b_room_id r = roomId \<and> b_status r = Approved
          \<and> half_open_overlap (b_start_time r) (b_end_time r)
               (s - utc_offset sb) (e - utc_offset sb))"
proof -
  let ?m = "filter (joinable (tables sb))
              (matching_bookings sb roomId [Approved] None
                 (s - utc_offset sb) (e - utc_offset sb))"
  have "(checkBookingAvailability sb roomId (Some s) (Some e) y \<noteq> None) = (?m \<noteq> [])"
    unfolding checkBookingAvailability_matching [OF assms]
    by (cases ?m) simp_all
  also have "\<dots> = (\<exists>r \<in> set (room_bookings (tables sb)).
          joinable (tables sb) r \<and> b_room_id r = roomId \<and> b_status r = Approved
          \<and> half_open_overlap (b_start_time r) (b_end_time r)
               (s - utc_offset sb) (e - utc_offset sb))"
    unfolding matching_bookings_def filter_filter filter_empty_conv
    by (auto simp: select_policy_def)
  finally show ?thesis .
qed

lemma getConflictingBookings_reports:
  assumes "outage sb = None"
  shows "(getConflictingBookings sb roomId (Some s) (Some e) x \<noteq> [])
     = (\<exists>r \<in> set (room_bookings (tables sb)).
          select_policy (auth_user sb) r \<and> joinable (tables sb) r \<and> b_room_id r = roomId
          \<and> b_id r \<noteq> x \<and> (b_status r = Approved \<or> b_status r = Pending)
          \<and> half_open_overlap (b_start_time r) (b_end_time r)
               (s - utc_offset sb) (e - utc_offset sb))"
  unfolding getConflictingBookings_matching [OF assms] matching_bookings_def filter_filter
  by (auto simp: filter_empty_conv)

lemma db_insert_exclusion:
  assumes "insert_check c r" and "valid_booking_time_range r"
    and "b_id r \<notin> set (map b_id (room_bookings d))"
  shows "(db_insert c r d = Inl exclusion_violation)
     = (\<exists>x \<in> set (room_bookings d). b_room_id x = b_room_id r
          \<and> b_start_time x \<le> b_end_time r \<and> b_start_time r \<le> b_end_time x)"
  using assms by (auto simp: db_insert_def exclusion_conflict_def tsrange_overlap_def)

text \<open>
  Claim C5, as amended. Both availability queries test a stored booking (one that has its
  room and profile rows) against the interval the query sends for the candidate, by the
  half-open rule \<^verbatim>\<open>a_start < b_end AND b_start < a_end\<close>; the interval sent is the
  candidate's start and end as \<^verbatim>\<open>new Date(..).toISOString()\<close> prints them, which in a
  browser at UTC offset 0 is the candidate interval itself. The exclusion constraint of
  the store applies another rule: an insert that passes the policy, the CHECK constraint
  and the primary key is rejected with an exclusion violation exactly when a stored
  booking of the same room, of any status, meets the closed-interval test
  \<^verbatim>\<open>a_start <= b_end AND b_start <= a_end\<close>.
\<close>

theorem client_half_open_store_closed:
  "(outage sb = None \<longrightarrow>
      (checkBookingAvailability sb roomId (Some s) (Some e) y \<noteq> None)
      = (\<exists>r \<in> set (room_bookings (tables sb)).
           joinable (tables sb) r \<and> b_room_id r = roomId \<and> b_status r = Approved
           \<and> half_open_overlap (b_start_time r) (b_end_time r)
                (s - utc_offset sb) (e - utc_offset sb)))
   \<and> (outage sb = None \<longrightarrow>
      (getConflictingBookings sb roomId (Some s) (Some e) x \<noteq> [])
      = (\<exists>r \<in> set (room_bookings (tables sb)).
           select_policy (auth_user sb) r \<and> joinable (tables sb) r \<and> b_room_id r = roomId
           \<and> b_id r \<noteq> x \<and> (b_status r = Approved \<or> b_status r = Pending)
           \<and> half_open_overlap (b_start_time r) (b_end_time r)
                (s - utc_offset sb) (e - utc_offset sb)))
   \<and> (outage sb = None \<and> utc_offset sb = 0 \<longrightarrow>
      (checkBookingAvailability sb roomId (Some s) (Some e) y \<noteq> None)
      = (\<exists>r \<in> set (room_bookings (tables sb)).
           joinable (tables sb) r \<and> b_room_id r = roomId \<and> b_status r = Approved
           \<and> b_start_time r < e \<and> s < b_end_time r))
   \<and> (insert_check c r \<and> valid_booking_time_range r
        \<and> b_id r \<notin> set (map b_id (room_bookings d)) \<longrightarrow>
      (db_insert c r d = Inl exclusion_violation)
      = (\<exists>x \<in> set (room_bookings d). b_room_id x = b_room_id r
           \<and> b_start_time x \<le> b_end_time r \<and> b_start_time r \<le> b_end_time x))"
proof -
  have 3: "outage sb = None \<and> utc_offset sb = 0 \<longrightarrow>
      (checkBookingAvailability sb roomId (Some s) (Some e) y \<noteq> None)
      = (\<exists>r \<in> set (room_bookings (tables sb)).
           joinable (tables sb) r \<and> b_room_id r = roomId \<and> b_status r = Approved
           \<and> b_start_time r < e \<and> s < b_end_time r)"
    using checkBookingAvailability_reports [of sb roomId s e y]
    by (simp add: half_open_overlap_def)
  from 3 checkBookingAvailability_reports getConflictingBookings_reports db_insert_exclusion
  show ?thesis by blast
qed

text \<open>In a browser at UTC, against an approved booking 10:00 to 11:00, the candidate 10:30
  to 11:30 is reported and the candidate 11:00 to 12:00 is not; the store accepts 11:10
  to 12:00.\<close>

theorem client_half_open_store_closed_witness:
  "checkBookingAvailability (ex_client bob [ex_booking ''b1'' ''ann'' 600 660 Approved])
      ''room-x'' (Some 630) (Some 690) None \<noteq> None
   \<and> checkBookingAvailability (ex_client bob [ex_booking ''b1'' ''ann'' 600 660 Approved])
      ''room-x'' (Some 660) (Some 720) None = None
   \<and> db_insert (Some bob) (ex_booking ''b2'' ''bob'' 670 720 Pending)
        (ex_store [ex_booking ''b1'' ''ann'' 600 660 Approved]) \<noteq> Inl exclusion_violation"
proof -
  let ?sb = "ex_client bob [ex_booking ''b1'' ''ann'' 600 660 Approved]"
  have o: "outage ?sb = None \<and> utc_offset ?sb = 0" by (simp add: ex_client_def)
  have i: "insert_check (Some bob) (ex_booking ''b2'' ''bob'' 670 720 Pending)
      \<and> valid_booking_time_range (ex_booking ''b2'' ''bob'' 670 720 Pending)
      \<and> b_id (ex_booking ''b2'' ''bob'' 670 720 Pending)
          \<notin> set (map b_id (room_bookings (ex_store [ex_booking ''b1'' ''ann'' 600 660 Approved])))"
    by (simp add: insert_check_def auth_uid_is_def valid_booking_time_range_def
        ex_booking_def ex_store_def bob_def)
  note th1 = client_half_open_store_closed [of ?sb "''room-x''" 630 690 None]
  from th1 o have "(checkBookingAvailability ?sb ''room-x'' (Some 630) (Some 690) None \<noteq> None)
      = (\<exists>r \<in> set (room_bookings (tables ?sb)).
           joinable (tables ?sb) r \<and> b_room_id r = ''room-x'' \<and> b_status r = Approved
           \<and> b_start_time r < 690 \<and> 630 < b_end_time r)"
    by blast
  then have a: "checkBookingAvailability ?sb ''room-x'' (Some 630) (Some 690) None \<noteq> None"
    by (simp add: ex_client_def ex_store_def ex_booking_def joinable_def)
  note th2 = client_half_open_store_closed [of ?sb "''room-x''" 660 720 None]
  from th2 o have "(checkBookingAvailability ?sb ''room-x'' (Some 660) (Some 720) None \<noteq> None)
      = (\<exists>r \<in> set (room_bookings (tables ?sb)).
           joinable (tables ?sb) r \<and> b_room_id r = ''room-x'' \<and> b_status r = Approved
           \<and> b_start_time r < 720 \<and> 660 < b_end_time r)"
    by blast
  then have b: "checkBookingAvailability ?sb ''room-x'' (Some 660) (Some 720) None = None"
    by (simp add: ex_client_def ex_store_def ex_booking_def joinable_def)
  have c: "db_insert (Some bob) (ex_booking ''b2'' ''bob'' 670 720 Pending)
        (ex_store [ex_booking ''b1'' ''ann'' 600 660 Approved]) \<noteq> Inl exclusion_violation"
    using client_half_open_store_closed [of _ _ _ _ _ _ "Some bob"
        "ex_booking ''b2'' ''bob'' 670 720 Pending"
        "ex_store [ex_booking ''b1'' ''ann'' 600 660 Approved]"] i
    by (simp add: ex_store_def ex_booking_def)
  from a b c show ?thesis by blast
qed

text \<open>
  Claim C5 as stated fails in its last part: the candidate 11:00 to 12:00 is free for
  the client check and rejected by the store constraint, which counts the touching end
  points as an overlap.
\<close>

theorem store_rejects_touching_counterexample:
  "checkBookingAvailability (ex_client bob [ex_booking ''b1'' ''ann'' 600 660 Approved])
      ''room-x'' (Some 660) (Some 720) None = None
   \<and> db_insert (Some bob) (ex_booking ''b2'' ''bob'' 660 720 Pending)
        (ex_store [ex_booking ''b1'' ''ann'' 600 660 Approved]) = Inl exclusion_violation"
  by (simp add: client_eval store_eval example_eval)

section \<open>The pre-approval check\<close>

text \<open>
  Claim C6. \<^verbatim>\<open>handleApproveClick\<close> stores the result of \<^verbatim>\<open>getConflictingBookings\<close> for the
  room and the stored times of the booking, with the booking's own id excluded; when the
  query succeeds these are the approved and pending bookings of the room, other than the
  booking itself, that the query matches. When the result is not empty the Approve
  button of the dialog is disabled, a click on it changes neither the store nor the view
  (no update is sent), and the dialog lists the conflicts.
\<close>

theorem approval_blocked_on_conflicts:
  "conflicts (handleApproveClick sb b st)
     = getConflictingBookings sb (pb_room_id b) (Some (pb_start_time b))
         (Some (pb_end_time b)) (pb_id b)
   \<and> (outage sb = None \<longrightarrow>
        map cb_id (conflicts (handleApproveClick sb b st))
        = map b_id (filter (joinable (tables sb))
            (matching_bookings sb (pb_room_id b) [Approved, Pending] (Some (pb_id b))
               (pb_start_time b - utc_offset sb) (pb_end_time b - utc_offset sb))))
   \<and> (conflicts (handleApproveClick sb b st) \<noteq> [] \<longrightarrow>
        approve_button_disabled (handleApproveClick sb b st)
        \<and> dialog_approve_click sb' (handleApproveClick sb b st)
            = (sb', handleApproveClick sb b st)
        \<and> dialog_shows (handleApproveClick sb b st)
            = Some (Conflicts_Found (conflicts (handleApproveClick sb b st))))"
proof -
  have 1: "conflicts (handleApproveClick sb b st)
     = getConflictingBookings sb (pb_room_id b) (Some (pb_start_time b))
         (Some (pb_end_time b)) (pb_id b)"
    by (simp add: handleApproveClick_def Let_def)
  have 2: "outage sb = None \<longrightarrow>
        map cb_id (conflicts (handleApproveClick sb b st))
        = map b_id (filter (joinable (tables sb))
            (matching_bookings sb (pb_room_id b) [Approved, Pending] (Some (pb_id b))
               (pb_start_time b - utc_offset sb) (pb_end_time b - utc_offset sb)))"
    unfolding 1 by (simp add: getConflictingBookings_matching enriched_def comp_def)
  have 3: "conflicts (handleApproveClick sb b st) \<noteq> [] \<longrightarrow>
        approve_button_disabled (handleApproveClick sb b st)
        \<and> dialog_approve_click sb' (handleApproveClick sb b st)
            = (sb', handleApproveClick sb b st)
        \<and> dialog_shows (handleApproveClick sb b st)
            = Some (Conflicts_Found (conflicts (handleApproveClick sb b st)))"
    by (simp add: dialog_approve_click_def approve_button_disabled_def dialog_shows_def
        handleApproveClick_def Let_def)
  from 1 2 3 show ?thesis by blast
qed

lemma ex_reachable_two:
  "reachable (ex_store [ex_booking ''b1'' ''ann'' 600 660 Pending,
                        ex_booking ''b2'' ''bob'' 180 240 Pending])"
  by (rule reachable.initial)
     (simp_all add: ex_store_def ex_booking_def no_overlapping_bookings_def
        exclusion_conflict_def tsrange_overlap_def)

text \<open>A store the constraints admit, seen from a browser at UTC+7: the check for Ann's
  pending booking 10:00 to 11:00 asks for 03:00 to 04:00 and finds Bob's pending booking
  there; the click on Approve leaves the table as it is.\<close>

theorem approval_blocked_on_conflicts_witness:
  "reachable (tables (ex_client_at 420 cy [ex_booking ''b1'' ''ann'' 600 660 Pending,
                                           ex_booking ''b2'' ''bob'' 180 240 Pending]))
   \<and> map cb_id (conflicts (handleApproveClick
       (ex_client_at 420 cy [ex_booking ''b1'' ''ann'' 600 660 Pending,
                             ex_booking ''b2'' ''bob'' 180 240 Pending])
       (ex_pending ''b1'' ''ann'' 600 660) ex_view)) = [''b2'']
   \<and> tables (fst (dialog_approve_click
       (ex_client_at 420 cy [ex_booking ''b1'' ''ann'' 600 660 Pending,
                             ex_booking ''b2'' ''bob'' 180 240 Pending])
       (handleApproveClick
          (ex_client_at 420 cy [ex_booking ''b1'' ''ann'' 600 660 Pending,
                                ex_booking ''b2'' ''bob'' 180 240 Pending])
          (ex_pending ''b1'' ''ann'' 600 660) ex_view)))
     = ex_store [ex_booking ''b1'' ''ann'' 600 660 Pending,
                 ex_booking ''b2'' ''bob'' 180 240 Pending]"
proof -
  let ?sb = "ex_client_at 420 cy [ex_booking ''b1'' ''ann'' 600 660 Pending,
                      ex_booking ''b2'' ''bob'' 180 240 Pending]"
  let ?st = "handleApproveClick ?sb (ex_pending ''b1'' ''ann'' 600 660) ex_view"
  have o: "outage ?sb = None" by (simp add: ex_client_at_def)
  have r: "reachable (tables ?sb)" using ex_reachable_two by (simp add: ex_client_at_def)
  note th = approval_blocked_on_conflicts
                 [of ?sb "ex_pending ''b1'' ''ann'' 600 660" ex_view ?sb]
  from th o have "map cb_id (conflicts ?st)
      = map b_id (filter (joinable (tables ?sb))
          (matching_bookings ?sb (pb_room_id (ex_pending ''b1'' ''ann'' 600 660))
            [Approved, Pending] (Some (pb_id (ex_pending ''b1'' ''ann'' 600 660)))
            (pb_start_time (ex_pending ''b1'' ''ann'' 600 660) - utc_offset ?sb)
            (pb_end_time (ex_pending ''b1'' ''ann'' 600 660) - utc_offset ?sb)))"
    by blast
  also have "\<dots> = [''b2'']"
    by (simp add: matching_bookings_def joinable_def half_open_overlap_def
        select_policy_def auth_uid_is_def has_role_def example_eval ex_pending_def)
  finally have ids: "map cb_id (conflicts ?st) = [''b2'']" .
  then have ne: "conflicts ?st \<noteq> []" by auto
  have "dialog_approve_click ?sb ?st = (?sb, ?st)"
    using th ne by blast
  then have "tables (fst (dialog_approve_click ?sb ?st)) = tables ?sb" by simp
  with ids r show ?thesis by (simp add: ex_client_at_def)
qed

section \<open>The approve mutation\<close>

lemma db_update_rows:
  assumes "db_update c bid f d = Inr d'"
  shows "d' = d\<lparr>room_bookings :=
            map (\<lambda>r. if b_id r = bid \<and> select_policy c r \<and> update_using c r then f r else r)
              (room_bookings d)\<rparr>"
  using assms by (auto simp: db_update_def Let_def split: if_splits)

lemma request_update_rows:
  assumes "request_update sb bid f = Inr d"
  shows "d = (tables sb)\<lparr>room_bookings :=
            map (\<lambda>r. if b_id r = bid \<and> select_policy (auth_user sb) r
                          \<and> update_using (auth_user sb) r then f r else r)
              (room_bookings (tables sb))\<rparr>"
  using assms db_update_rows
  by (auto simp: request_update_def split: option.splits)

lemma fst_handleApprove:
  assumes "selectedBooking st = Some sel"
    and "request_update sb (pb_id sel) approve_payload = Inr d"
  shows "fst (handleApprove sb st) = sb\<lparr>tables := d\<rparr>"
  using assms by (simp add: handleApprove_def)

text \<open>
  Claim C7, as amended. A successful approve sets the status of the selected booking to
  approved (for a pending booking approved by a leader or an admin the row with the new
  status is in the table afterwards) and changes no other column: the payload is
  \<^verbatim>\<open>{ status: "approved" }\<close>, and the approver and the approval time of every row stay as
  they were.
\<close>

theorem approve_sets_status_only:
  assumes "selectedBooking st = Some sel"
    and "request_update sb (pb_id sel) approve_payload = Inr d"
  shows "fst (handleApprove sb st) = sb\<lparr>tables := d\<rparr>
    \<and> room_bookings d
        = map (\<lambda>r. if b_id r = pb_id sel \<and> select_policy (auth_user sb) r
                       \<and> update_using (auth_user sb) r
                    then r\<lparr>b_status := Approved\<rparr> else r)
            (room_bookings (tables sb))
    \<and> map b_approved_by (room_bookings d) = map b_approved_by (room_bookings (tables sb))
    \<and> map b_approved_at (room_bookings d) = map b_approved_at (room_bookings (tables sb))
    \<and> (\<forall>r \<in> set (room_bookings (tables sb)).
          b_id r = pb_id sel \<and> b_status r = Pending
          \<and> (has_role (auth_user sb) Leader \<or> has_role (auth_user sb) Admin)
          \<longrightarrow> r\<lparr>b_status := Approved\<rparr> \<in> set (room_bookings d))"
proof -
  let ?hit = "\<lambda>r. b_id r = pb_id sel \<and> select_policy (auth_user sb) r
                       \<and> update_using (auth_user sb) r"
  let ?g = "\<lambda>r. if ?hit r then r\<lparr>b_status := Approved\<rparr> else r"
  have rows: "room_bookings d = map ?g (room_bookings (tables sb))"
    using request_update_rows [OF assms(2)] by (simp add: approve_payload_def)
  have by_: "map b_approved_by (room_bookings d) = map b_approved_by (room_bookings (tables sb))"
    unfolding rows by (induction "room_bookings (tables sb)") auto
  have at: "map b_approved_at (room_bookings d) = map b_approved_at (room_bookings (tables sb))"
    unfolding rows by (induction "room_bookings (tables sb)") auto
  have appr: "\<forall>r \<in> set (room_bookings (tables sb)).
          b_id r = pb_id sel \<and> b_status r = Pending
          \<and> (has_role (auth_user sb) Leader \<or> has_role (auth_user sb) Admin)
          \<longrightarrow> r\<lparr>b_status := Approved\<rparr> \<in> set (room_bookings d)"
  proof (intro ballI impI)
    fix r assume r: "r \<in> set (room_bookings (tables sb))"
      and h: "b_id r = pb_id sel \<and> b_status r = Pending
          \<and> (has_role (auth_user sb) Leader \<or> has_role (auth_user sb) Admin)"
    from h have "?hit r" by (auto simp: select_policy_def update_using_def)
    then have "?g r = r\<lparr>b_status := Approved\<rparr>" by simp
    moreover from r have "?g r \<in> set (room_bookings d)" unfolding rows by simp
    ultimately show "r\<lparr>b_status := Approved\<rparr> \<in> set (room_bookings d)" by simp
  qed
  from fst_handleApprove [OF assms] rows by_ at appr show ?thesis by blast
qed

lemma ex_request_approve:
  "request_update (ex_client cy [ex_booking ''b1'' ''ann'' 600 660 Pending]) ''b1'' approve_payload
     = Inr (ex_store [ex_booking ''b1'' ''ann'' 600 660 Approved])"
  by (simp add: request_update_def ex_client_def ex_approve)

text \<open>Cy, an admin, approves Ann's pending booking.\<close>

theorem approve_sets_status_only_witness:
  "room_bookings (tables (fst (handleApprove
       (ex_client cy [ex_booking ''b1'' ''ann'' 600 660 Pending])
       (ex_view\<lparr>selectedBooking := Some (ex_pending ''b1'' ''ann'' 600 660)\<rparr>))))
     = [ex_booking ''b1'' ''ann'' 600 660 Approved]"
proof -
  have sel: "selectedBooking (ex_view\<lparr>selectedBooking := Some (ex_pending ''b1'' ''ann'' 600 660)\<rparr>)
      = Some (ex_pending ''b1'' ''ann'' 600 660)" by simp
  have upd: "request_update (ex_client cy [ex_booking ''b1'' ''ann'' 600 660 Pending])
      (pb_id (ex_pending ''b1'' ''ann'' 600 660)) approve_payload
      = Inr (ex_store [ex_booking ''b1'' ''ann'' 600 660 Approved])"
    using ex_request_approve by (simp add: ex_pending_def)
  from approve_sets_status_only [OF sel upd] show ?thesis
    by (simp add: ex_store_def)
qed

text \<open>
  Claim C7 as stated fails: after the approval the booking is approved, and its approver
  and approval time are still unset.
\<close>

theorem approve_leaves_approver_unset_counterexample:
  "map b_status (room_bookings (tables (fst (handleApprove
       (ex_client cy [ex_booking ''b1'' ''ann'' 600 660 Pending])
       (ex_view\<lparr>selectedBooking := Some (ex_pending ''b1'' ''ann'' 600 660)\<rparr>)))))
     = [Approved]
   \<and> map b_approved_by (room_bookings (tables (fst (handleApprove
       (ex_client cy [ex_booking ''b1'' ''ann'' 600 660 Pending])
       (ex_view\<lparr>selectedBooking := Some (ex_pending ''b1'' ''ann'' 600 660)\<rparr>)))))
     = [None]
   \<and> map b_approved_at (room_bookings (tables (fst (handleApprove
       (ex_client cy [ex_booking ''b1'' ''ann'' 600 660 Pending])
       (ex_view\<lparr>selectedBooking := Some (ex_pending ''b1'' ''ann'' 600 660)\<rparr>)))))
     = [None]"
  using ex_request_approve
  by (simp add: handleApprove_def ex_pending_def ex_store_def ex_booking_def)

section \<open>Cancellation\<close>

lemma db_update_no_hit:
  assumes "\<forall>r \<in> set (room_bookings d). \<not> (b_id r = bid \<and> select_policy c r \<and> update_using c r)"
  shows "db_update c bid f d = Inr d"
proof -
  let ?hit = "\<lambda>r. b_id r = bid \<and> select_policy c r \<and> update_using c r"
  from assms have old: "filter ?hit (room_bookings d) = []"
    by (simp add: filter_empty_conv)
  have "map (\<lambda>r. if ?hit r then f r else r) (room_bookings d) = room_bookings d"
  proof (rule map_idI)
    fix r assume "r \<in> set (room_bookings d)"
    with assms have "\<not> ?hit r" by blast
    then show "(if ?hit r then f r else r) = r" by auto
  qed
  then show ?thesis unfolding db_update_def Let_def old by simp
qed

lemma fst_handleCancel_no_change:
  assumes "request_update sb bid (cancel_payload now) = Inr (tables sb)
           \<or> (\<exists>e. request_update sb bid (cancel_payload now) = Inl e)"
  shows "fst (handleCancel sb bid now st) = sb"
  using assms by (auto simp: handleCancel_def)

lemma cancel_no_op:
  assumes "\<not> has_role (auth_user sb) Leader" and "\<not> has_role (auth_user sb) Admin"
    and "\<forall>r \<in> set (room_bookings (tables sb)). b_id r = bid \<longrightarrow> b_status r \<noteq> Pending"
  shows "fst (handleCancel sb bid now st) = sb"
proof (cases "outage sb")
  case None
  from assms have "\<forall>r \<in> set (room_bookings (tables sb)).
      \<not> (b_id r = bid \<and> select_policy (auth_user sb) r \<and> update_using (auth_user sb) r)"
    by (auto simp: update_using_def)
  then have "db_update (auth_user sb) bid (cancel_payload now) (tables sb) = Inr (tables sb)"
    by (rule db_update_no_hit)
  with None have "request_update sb bid (cancel_payload now) = Inr (tables sb)"
    by (simp add: request_update_def)
  then show ?thesis using fst_handleCancel_no_change by blast
next
  case (Some e)
  then have "request_update sb bid (cancel_payload now) = Inl e"
    by (simp add: request_update_def)
  then show ?thesis using fst_handleCancel_no_change by blast
qed

lemma db_update_privileged:
  assumes la: "has_role c Leader \<or> has_role c Admin"
    and inv: "store_inv (room_bookings d)"
    and ks: "keeps_slot f"
    and valid: "\<forall>r \<in> set (room_bookings d). b_id r = bid \<longrightarrow> valid_booking_time_range r"
  shows "db_update c bid f d
     = Inr (d\<lparr>room_bookings := map (\<lambda>r. if b_id r = bid then f r else r) (room_bookings d)\<rparr>)"
proof -
  let ?hit = "\<lambda>r. b_id r = bid \<and> select_policy c r \<and> update_using c r"
  from la have hit: "?hit = (\<lambda>r. b_id r = bid)"
    by (auto simp: select_policy_def update_using_def)
  from la have chk: "\<And>r. update_check c (f r) \<and> select_policy c (f r)"
    by (auto simp: select_policy_def update_check_def)
  from ks have same: "\<And>r. valid_booking_time_range (f r) = valid_booking_time_range r"
    "\<And>x r. exclusion_conflict x (f r) = exclusion_conflict x r" "\<And>r. b_id (f r) = b_id r"
    by (simp_all add: keeps_slot_def valid_booking_time_range_def exclusion_conflict_def)
  have c2: "\<not> (\<exists>r \<in> set (filter (\<lambda>r. b_id r = bid) (room_bookings d)).
      \<not> valid_booking_time_range (f r))"
    using valid same(1) by auto
  have c3: "\<not> (\<exists>r \<in> set (filter (\<lambda>r. b_id r = bid) (room_bookings d)).
      \<exists>x \<in> set (room_bookings d). b_id x \<noteq> b_id r \<and> exclusion_conflict x (f r))"
    using inv unfolding same(2) store_inv_def no_overlapping_bookings_def by auto
  show ?thesis
    unfolding db_update_def Let_def hit using chk c2 c3 by simp
qed

lemma cancel_no_op_reply:
  assumes "outage sb = None"
    and "\<not> has_role (auth_user sb) Leader" and "\<not> has_role (auth_user sb) Admin"
    and "\<forall>r \<in> set (room_bookings (tables sb)). b_id r = bid \<longrightarrow> b_status r \<noteq> Pending"
  shows "request_update sb bid (cancel_payload now) = Inr (tables sb)"
proof -
  from assms(2-4) have "\<forall>r \<in> set (room_bookings (tables sb)).
      \<not> (b_id r = bid \<and> select_policy (auth_user sb) r \<and> update_using (auth_user sb) r)"
    by (auto simp: update_using_def)
  then have "db_update (auth_user sb) bid (cancel_payload now) (tables sb) = Inr (tables sb)"
    by (rule db_update_no_hit)
  with assms(1) show ?thesis by (simp add: request_update_def)
qed

lemma loadBookings_toasts:
  "outage sb = None \<Longrightarrow> mb_toasts (loadBookings sb st) = mb_toasts st"
  by (simp add: loadBookings_def select_rows_def split: option.splits)

lemma handleCancel_success_toast:
  assumes "outage sb = None" and "request_update sb bid (cancel_payload now) = Inr d"
  shows "mb_toasts (snd (handleCancel sb bid now st))
     = mb_toasts st @ [\<lparr>t_title = ''Success'',
                         t_description = ''Booking cancelled successfully'',
                         t_destructive = False\<rparr>]"
proof -
  from assms(1) have "outage (sb\<lparr>tables := d\<rparr>) = None" by simp
  from loadBookings_toasts [OF this] assms(2) show ?thesis
    by (simp add: handleCancel_def)
qed

text \<open>
  Claim C8, as amended. A cancellation request on a booking that is not pending, sent by
  a caller who is neither leader nor admin, leaves the store as it was. When the request
  reaches the store the update policy matches no row, the store answers without an error
  and with the table unchanged, and the client shows its success toast. A caller who is
  leader or admin is let through by the policy for every row: in a reachable store such
  a caller's request sets the booking (one whose times satisfy the CHECK constraint) to
  cancelled whatever its status was, approved and rejected included.
\<close>

theorem cancel_of_non_pending:
  "(\<not> has_role (auth_user sb) Leader \<and> \<not> has_role (auth_user sb) Admin
      \<and> (\<forall>r \<in> set (room_bookings (tables sb)). b_id r = bid \<longrightarrow> b_status r \<noteq> Pending)
    \<longrightarrow> fst (handleCancel sb bid now st) = sb)
   \<and> (outage sb = None
      \<and> \<not> has_role (auth_user sb) Leader \<and> \<not> has_role (auth_user sb) Admin
      \<and> (\<forall>r \<in> set (room_bookings (tables sb)). b_id r = bid \<longrightarrow> b_status r \<noteq> Pending)
    \<longrightarrow> request_update sb bid (cancel_payload now) = Inr (tables sb)
        \<and> mb_toasts (snd (handleCancel sb bid now st))
            = mb_toasts st @ [\<lparr>t_title = ''Success'',
                                t_description = ''Booking cancelled successfully'',
                                t_destructive = False\<rparr>])
   \<and> (outage sb = None \<and> (has_role (auth_user sb) Leader \<or> has_role (auth_user sb) Admin)
      \<and> reachable (tables sb)
      \<and> (\<forall>r \<in> set (room_bookings (tables sb)). b_id r = bid \<longrightarrow> valid_booking_time_range r)
    \<longrightarrow> room_bookings (tables (fst (handleCancel sb bid now st)))
        = map (\<lambda>r. if b_id r = bid then r\<lparr>b_status := Cancelled, b_updated_at := now\<rparr> else r)
            (room_bookings (tables sb)))"
proof (intro conjI impI)
  assume "\<not> has_role (auth_user sb) Leader \<and> \<not> has_role (auth_user sb) Admin
      \<and> (\<forall>r \<in> set (room_bookings (tables sb)). b_id r = bid \<longrightarrow> b_status r \<noteq> Pending)"
  then show "fst (handleCancel sb bid now st) = sb" using cancel_no_op by blast
next
  assume h: "outage sb = None
      \<and> \<not> has_role (auth_user sb) Leader \<and> \<not> has_role (auth_user sb) Admin
      \<and> (\<forall>r \<in> set (room_bookings (tables sb)). b_id r = bid \<longrightarrow> b_status r \<noteq> Pending)"
  then show r: "request_update sb bid (cancel_payload now) = Inr (tables sb)"
    using cancel_no_op_reply by blast
  from h r show "mb_toasts (snd (handleCancel sb bid now st))
            = mb_toasts st @ [\<lparr>t_title = ''Success'',
                                t_description = ''Booking cancelled successfully'',
                                t_destructive = False\<rparr>]"
    using handleCancel_success_toast by blast
next
  assume h: "outage sb = None \<and> (has_role (auth_user sb) Leader \<or> has_role (auth_user sb) Admin)
      \<and> reachable (tables sb)
      \<and> (\<forall>r \<in> set (room_bookings (tables sb)). b_id r = bid \<longrightarrow> valid_booking_time_range r)"
  then have inv: "store_inv (room_bookings (tables sb))" using reachable_store_inv by blast
  from h have "db_update (auth_user sb) bid (cancel_payload now) (tables sb)
     = Inr ((tables sb)\<lparr>room_bookings :=
          map (\<lambda>r. if b_id r = bid then cancel_payload now r else r) (room_bookings (tables sb))\<rparr>)"
    using db_update_privileged [OF _ inv keeps_slot_payloads(3)] by blast
  with h show "room_bookings (tables (fst (handleCancel sb bid now st)))
        = map (\<lambda>r. if b_id r = bid then r\<lparr>b_status := Cancelled, b_updated_at := now\<rparr> else r)
            (room_bookings (tables sb))"
    by (simp add: handleCancel_def request_update_def cancel_payload_def)
qed

lemma ex_reachable_lea: "reachable (ex_store [ex_booking ''b1'' ''lea'' 600 660 Approved])"
  by (rule reachable.initial)
     (simp_all add: ex_store_def no_overlapping_bookings_def)

text \<open>Ann, staff, cancels her approved booking: no error, the store stays as it was and
  the toast says success. Lea, a leader, cancels hers and it becomes cancelled.\<close>

theorem cancel_of_non_pending_witness:
  "request_update (ex_client ann [ex_booking ''b1'' ''ann'' 600 660 Approved]) ''b1''
       (cancel_payload 500)
     = Inr (ex_store [ex_booking ''b1'' ''ann'' 600 660 Approved])
   \<and> fst (handleCancel (ex_client ann [ex_booking ''b1'' ''ann'' 600 660 Approved]) ''b1'' 500 ex_my)
     = ex_client ann [ex_booking ''b1'' ''ann'' 600 660 Approved]
   \<and> map t_title (mb_toasts (snd (handleCancel
        (ex_client ann [ex_booking ''b1'' ''ann'' 600 660 Approved]) ''b1'' 500 ex_my)))
     = [''Success'']
   \<and> map b_status (room_bookings (tables (fst (handleCancel
        (ex_client lea [ex_booking ''b1'' ''lea'' 600 660 Approved]) ''b1'' 500 ex_my))))
     = [Cancelled]"
proof -
  let ?sa = "ex_client ann [ex_booking ''b1'' ''ann'' 600 660 Approved]"
  let ?sl = "ex_client lea [ex_booking ''b1'' ''lea'' 600 660 Approved]"
  note tha = cancel_of_non_pending [of ?sa "''b1''" 500 ex_my]
  note thl = cancel_of_non_pending [of ?sl "''b1''" 500 ex_my]
  have pa: "outage ?sa = None
      \<and> \<not> has_role (auth_user ?sa) Leader \<and> \<not> has_role (auth_user ?sa) Admin
      \<and> (\<forall>r \<in> set (room_bookings (tables ?sa)). b_id r = ''b1'' \<longrightarrow> b_status r \<noteq> Pending)"
    by (simp add: has_role_def example_eval)
  from tha pa have a1: "request_update ?sa ''b1'' (cancel_payload 500) = Inr (tables ?sa)"
    by blast
  from tha pa have a2: "fst (handleCancel ?sa ''b1'' 500 ex_my) = ?sa" by blast
  from tha pa have "mb_toasts (snd (handleCancel ?sa ''b1'' 500 ex_my))
            = mb_toasts ex_my @ [\<lparr>t_title = ''Success'',
                                t_description = ''Booking cancelled successfully'',
                                t_destructive = False\<rparr>]"
    by blast
  then have a3: "map t_title (mb_toasts (snd (handleCancel ?sa ''b1'' 500 ex_my))) = [''Success'']"
    by (simp add: ex_my_def)
  have pl: "outage ?sl = None
      \<and> (has_role (auth_user ?sl) Leader \<or> has_role (auth_user ?sl) Admin)
      \<and> reachable (tables ?sl)
      \<and> (\<forall>r \<in> set (room_bookings (tables ?sl)). b_id r = ''b1'' \<longrightarrow> valid_booking_time_range r)"
    using ex_reachable_lea
    by (simp add: has_role_def ex_client_def lea_def valid_booking_time_range_def
        ex_booking_def ex_store_def)
  from thl pl have "room_bookings (tables (fst (handleCancel ?sl ''b1'' 500 ex_my)))
     = map (\<lambda>r. if b_id r = ''b1'' then r\<lparr>b_status := Cancelled, b_updated_at := 500\<rparr> else r)
         (room_bookings (tables ?sl))"
    by blast
  then have b: "map b_status (room_bookings (tables (fst (handleCancel ?sl ''b1'' 500 ex_my))))
     = [Cancelled]"
    by (simp add: example_eval)
  from a1 a2 a3 b show ?thesis by (simp add: ex_client_def)
qed

text \<open>
  Claim C8 as stated fails: the table offers Lea the cancel button on her approved,
  upcoming booking, and \<^verbatim>\<open>handleCancel\<close> takes it from approved to cancelled.
\<close>

theorem approved_booking_cancelled_counterexample:
  "cancel_button_shown (ex_client lea [ex_booking ''b1'' ''lea'' 600 660 Approved]) 500
     (ex_booking ''b1'' ''lea'' 600 660 Approved)
   \<and> map b_status (room_bookings (tables (fst (handleCancel
        (ex_client lea [ex_booking ''b1'' ''lea'' 600 660 Approved]) ''b1'' 500 ex_my))))
     = [Cancelled]
   \<and> map t_title (mb_toasts (snd (handleCancel
        (ex_client lea [ex_booking ''b1'' ''lea'' 600 660 Approved]) ''b1'' 500 ex_my)))
     = [''Success'']"
  by (simp add: handleCancel_def request_update_def loadBookings_def getCurrentUser_def
      select_rows_def cancel_payload_def cancel_button_shown_def isPast_def new_Date_def
      ex_my_def store_eval example_eval Let_def)

section \<open>The submission workflow and the exclusion constraint\<close>

lemma code_23P01_is_conflict: "code e = ''23P01'' \<Longrightarrow> is_conflict_error e"
  by (simp add: is_conflict_error_def Let_def)

lemma exclusion_violation_is_conflict: "is_conflict_error exclusion_violation"
  by (rule code_23P01_is_conflict) (simp add: exclusion_violation_def)

lemma request_insert_excluded:
  assumes "outage sb = None" and "auth_user sb = Some user"
    and "f_startDateTime form < f_endDateTime form"
    and "new_id \<notin> set (map b_id (room_bookings (tables sb)))"
    and "\<exists>x \<in> set (room_bookings (tables sb)).
           exclusion_conflict x (inserted_row user new_id now form)"
  shows "request_insert sb (inserted_row user new_id now form) = Inl exclusion_violation"
proof -
  have "insert_check (Some user) (inserted_row user new_id now form)"
    by (simp add: insert_check_def auth_uid_is_def inserted_row_def)
  moreover from assms(3) have "valid_booking_time_range (inserted_row user new_id now form)"
    by (simp add: valid_booking_time_range_def inserted_row_def)
  moreover from assms(4) have
    "b_id (inserted_row user new_id now form) \<notin> set (map b_id (room_bookings (tables sb)))"
    by (simp add: inserted_row_def)
  ultimately show ?thesis using assms(1,2,5)
    by (simp add: request_insert_def db_insert_def)
qed

lemma handleSubmit_conflict:
  assumes "getCurrentUser sb = Some user"
    and "request_insert sb (inserted_row user new_id now form) = Inl e"
    and "is_conflict_error e"
  shows "handleSubmit sb True new_id now form st
     = (sb, st\<lparr>cd_toasts := cd_toasts st @
          [\<lparr>t_title = ''Booking Conflict'',
            t_description = ''This room is already booked for the selected time. Please choose a different time or room.'',
            t_destructive = True\<rparr>]\<rparr>)"
  using assms by (simp add: handleSubmit_def conflict_toast_def)

lemma handleSubmit_generic:
  assumes "getCurrentUser sb = Some user"
    and "request_insert sb (inserted_row user new_id now form) = Inl e"
    and "\<not> is_conflict_error e"
  shows "handleSubmit sb True new_id now form st
     = (sb, st\<lparr>cd_toasts := cd_toasts st @
          [\<lparr>t_title = ''Error'',
            t_description = (if message e = [] then ''Unknown error'' else message e),
            t_destructive = True\<rparr>]\<rparr>)"
  using assms by (simp add: handleSubmit_def error_toast_def Let_def)

text \<open>
  Claim C9. An insert that the exclusion constraint rejects comes back with the
  exclusion violation, whose code is 23P01; \<^verbatim>\<open>handleSubmit\<close> then leaves the store as it
  was and shows the toast titled "Booking Conflict" that reads "This room is already
  booked for the selected time. Please choose a different time or room.". A failure
  that is no conflict is shown under the title "Error" with the error's own message, a
  toast different from the former.
\<close>

theorem exclusion_rejection_shown_as_conflict:
  "(outage sb = None \<and> auth_user sb = Some user
      \<and> f_startDateTime form < f_endDateTime form
      \<and> new_id \<notin> set (map b_id (room_bookings (tables sb)))
      \<and> (\<exists>x \<in> set (room_bookings (tables sb)).
            exclusion_conflict x (inserted_row user new_id now form))
    \<longrightarrow> request_insert sb (inserted_row user new_id now form) = Inl exclusion_violation)
   \<and> code exclusion_violation = ''23P01''
   \<and> (getCurrentUser sb = Some user
      \<and> request_insert sb (inserted_row user new_id now form) = Inl exclusion_violation
    \<longrightarrow> handleSubmit sb True new_id now form st
        = (sb, st\<lparr>cd_toasts := cd_toasts st @
             [\<lparr>t_title = ''Booking Conflict'',
               t_description = ''This room is already booked for the selected time. Please choose a different time or room.'',
               t_destructive = True\<rparr>]\<rparr>))
   \<and> (getCurrentUser sb = Some user
      \<and> request_insert sb (inserted_row user new_id now form) = Inl e
      \<and> \<not> is_conflict_error e
    \<longrightarrow> handleSubmit sb True new_id now form st
        = (sb, st\<lparr>cd_toasts := cd_toasts st @
             [\<lparr>t_title = ''Error'',
               t_description = (if message e = [] then ''Unknown error'' else message e),
               t_destructive = True\<rparr>]\<rparr>)
        \<and> \<lparr>t_title = ''Error'',
            t_description = (if message e = [] then ''Unknown error'' else message e),
            t_destructive = True\<rparr>
          \<noteq> \<lparr>t_title = ''Booking Conflict'',
              t_description = ''This room is already booked for the selected time. Please choose a different time or room.'',
              t_destructive = True\<rparr>)"
proof (intro conjI impI)
  assume "outage sb = None \<and> auth_user sb = Some user
      \<and> f_startDateTime form < f_endDateTime form
      \<and> new_id \<notin> set (map b_id (room_bookings (tables sb)))
      \<and> (\<exists>x \<in> set (room_bookings (tables sb)).
            exclusion_conflict x (inserted_row user new_id now form))"
  then show "request_insert sb (inserted_row user new_id now form) = Inl exclusion_violation"
    using request_insert_excluded by blast
next
  show "code exclusion_violation = ''23P01''" by (simp add: exclusion_violation_def)
next
  assume "getCurrentUser sb = Some user
      \<and> request_insert sb (inserted_row user new_id now form) = Inl exclusion_violation"
  then show "handleSubmit sb True new_id now form st
        = (sb, st\<lparr>cd_toasts := cd_toasts st @
             [\<lparr>t_title = ''Booking Conflict'',
               t_description = ''This room is already booked for the selected time. Please choose a different time or room.'',
               t_destructive = True\<rparr>]\<rparr>)"
    using handleSubmit_conflict exclusion_violation_is_conflict by blast
next
  assume "getCurrentUser sb = Some user
      \<and> request_insert sb (inserted_row user new_id now form) = Inl e
      \<and> \<not> is_conflict_error e"
  then show "handleSubmit sb True new_id now form st
        = (sb, st\<lparr>cd_toasts := cd_toasts st @
             [\<lparr>t_title = ''Error'',
               t_description = (if message e = [] then ''Unknown error'' else message e),
               t_destructive = True\<rparr>]\<rparr>)"
    using handleSubmit_generic by blast
next
  show "\<lparr>t_title = ''Error'',
            t_description = (if message e = [] then ''Unknown error'' else message e),
            t_destructive = True\<rparr>
          \<noteq> \<lparr>t_title = ''Booking Conflict'',
              t_description = ''This room is already booked for the selected time. Please choose a different time or room.'',
              t_destructive = True\<rparr>"
    by simp
qed

lemma network_error_not_conflict: "\<not> is_conflict_error network_error"
  by (simp add: is_conflict_error_def network_error_def Let_def)

text \<open>Bob asks for 10:30 to 11:30 while 10:00 to 11:00 is approved: the conflict toast. The
  same form during a network failure: the error toast with the message of the failure.\<close>

theorem exclusion_rejection_shown_as_conflict_witness:
  "handleSubmit (ex_client bob [ex_booking ''b1'' ''ann'' 600 660 Approved]) True ''b2'' 0
       (ex_form 630 690) ex_dialog
     = (ex_client bob [ex_booking ''b1'' ''ann'' 600 660 Approved],
        \<lparr>cd_open = True,
         cd_toasts =
           [\<lparr>t_title = ''Booking Conflict'',
             t_description = ''This room is already booked for the selected time. Please choose a different time or room.'',
             t_destructive = True\<rparr>]\<rparr>)
   \<and> handleSubmit ((ex_client bob [])\<lparr>outage := Some network_error\<rparr>) True ''b2'' 0
       (ex_form 630 690) ex_dialog
     = ((ex_client bob [])\<lparr>outage := Some network_error\<rparr>,
        \<lparr>cd_open = True,
         cd_toasts =
           [\<lparr>t_title = ''Error'', t_description = ''TypeError: Failed to fetch'',
             t_destructive = True\<rparr>]\<rparr>)"
proof -
  let ?sb = "ex_client bob [ex_booking ''b1'' ''ann'' 600 660 Approved]"
  let ?sf = "(ex_client bob [])\<lparr>outage := Some network_error\<rparr>"
  note th1 = exclusion_rejection_shown_as_conflict
               [of ?sb bob "ex_form 630 690" "''b2''" 0 ex_dialog network_error]
  note th2 = exclusion_rejection_shown_as_conflict
               [of ?sf bob "ex_form 630 690" "''b2''" 0 ex_dialog network_error]
  have pre: "outage ?sb = None \<and> auth_user ?sb = Some bob
      \<and> f_startDateTime (ex_form 630 690) < f_endDateTime (ex_form 630 690)
      \<and> ''b2'' \<notin> set (map b_id (room_bookings (tables ?sb)))
      \<and> (\<exists>x \<in> set (room_bookings (tables ?sb)).
            exclusion_conflict x (inserted_row bob ''b2'' 0 (ex_form 630 690)))"
    by (simp add: ex_client_def ex_store_def ex_booking_def ex_form_def inserted_row_def
        exclusion_conflict_def tsrange_overlap_def)
  have u: "getCurrentUser ?sb = Some bob" "getCurrentUser ?sf = Some bob"
    by (simp_all add: getCurrentUser_def ex_client_def)
  from th1 pre have "request_insert ?sb (inserted_row bob ''b2'' 0 (ex_form 630 690))
      = Inl exclusion_violation" by blast
  with th1 u(1) have "handleSubmit ?sb True ''b2'' 0 (ex_form 630 690) ex_dialog
      = (?sb, ex_dialog\<lparr>cd_toasts := cd_toasts ex_dialog @
             [\<lparr>t_title = ''Booking Conflict'',
               t_description = ''This room is already booked for the selected time. Please choose a different time or room.'',
               t_destructive = True\<rparr>]\<rparr>)" by blast
  then have a: "handleSubmit ?sb True ''b2'' 0 (ex_form 630 690) ex_dialog
      = (?sb, \<lparr>cd_open = True,
         cd_toasts =
           [\<lparr>t_title = ''Booking Conflict'',
             t_description = ''This room is already booked for the selected time. Please choose a different time or room.'',
             t_destructive = True\<rparr>]\<rparr>)"
    by (simp add: ex_dialog_def)
  have "request_insert ?sf (inserted_row bob ''b2'' 0 (ex_form 630 690)) = Inl network_error"
    by (simp add: request_insert_def)
  with th2 u(2) network_error_not_conflict
  have "handleSubmit ?sf True ''b2'' 0 (ex_form 630 690) ex_dialog
      = (?sf, ex_dialog\<lparr>cd_toasts := cd_toasts ex_dialog @
             [\<lparr>t_title = ''Error'',
               t_description = (if message network_error = [] then ''Unknown error''
                                else message network_error),
               t_destructive = True\<rparr>]\<rparr>)"
    by blast
  then have b: "handleSubmit ?sf True ''b2'' 0 (ex_form 630 690) ex_dialog
      = (?sf, \<lparr>cd_open = True,
         cd_toasts =
           [\<lparr>t_title = ''Error'', t_description = ''TypeError: Failed to fetch'',
             t_destructive = True\<rparr>]\<rparr>)"
    by (simp add: ex_dialog_def network_error_def)
  from a b show ?thesis by blast
qed

section \<open>A failed availability query\<close>

lemma select_joined_outage: "outage sb = Some err \<Longrightarrow> select_joined sb flt = Inl err"
  by (simp add: select_joined_def)

lemma getConflictingBookings_outage:
  "outage sb = Some err \<Longrightarrow> getConflictingBookings sb roomId startTime endTime x = []"
  by (simp add: getConflictingBookings_def Let_def select_joined_outage split: option.splits)

lemma checkBookingAvailability_outage:
  "outage sb = Some err \<Longrightarrow> checkBookingAvailability sb roomId startTime endTime y = None"
  by (simp add: checkBookingAvailability_def Let_def select_joined_outage split: option.splits)

text \<open>
  Claim C2, evaluated on the code. When the query fails, \<^verbatim>\<open>checkBookingAvailability\<close>
  returns null and \<^verbatim>\<open>getConflictingBookings\<close> returns the empty list, the values they
  return when nothing conflicts; \<^verbatim>\<open>handleApproveClick\<close> then shows no toast, opens the
  dialog with "No conflicts detected. Safe to approve." and leaves the Approve button
  enabled. The claim asks for a distinguishable outcome and an aborted workflow.
\<close>

theorem failed_query_reads_as_no_conflict:
  "outage sb = Some err \<longrightarrow>
     checkBookingAvailability sb roomId startTime endTime y = None
     \<and> getConflictingBookings sb roomId startTime endTime x = []
     \<and> conflicts (handleApproveClick sb b st) = []
     \<and> toasts (handleApproveClick sb b st) = toasts st
     \<and> approvalDialogOpen (handleApproveClick sb b st)
     \<and> dialog_shows (handleApproveClick sb b st) = Some Safe_To_Approve
     \<and> approve_button_disabled (handleApproveClick sb b st) = (processingBookingId st \<noteq> [])"
proof
  assume o: "outage sb = Some err"
  have c: "conflicts (handleApproveClick sb b st) = []"
    using getConflictingBookings_outage [OF o] by (simp add: handleApproveClick_def Let_def)
  have t: "toasts (handleApproveClick sb b st) = toasts st"
    by (simp add: handleApproveClick_def Let_def)
  have d: "approvalDialogOpen (handleApproveClick sb b st)"
    by (simp add: handleApproveClick_def Let_def)
  have s: "selectedBooking (handleApproveClick sb b st) = Some b"
    by (simp add: handleApproveClick_def Let_def)
  have p: "processingBookingId (handleApproveClick sb b st) = processingBookingId st"
    by (simp add: handleApproveClick_def Let_def)
  have sh: "dialog_shows (handleApproveClick sb b st) = Some Safe_To_Approve"
    using c d s by (simp add: dialog_shows_def)
  have bd: "approve_button_disabled (handleApproveClick sb b st) = (processingBookingId st \<noteq> [])"
    using c p by (simp add: approve_button_disabled_def)
  from checkBookingAvailability_outage [OF o] getConflictingBookings_outage [OF o] c t d sh bd
  show "checkBookingAvailability sb roomId startTime endTime y = None
     \<and> getConflictingBookings sb roomId startTime endTime x = []
     \<and> conflicts (handleApproveClick sb b st) = []
     \<and> toasts (handleApproveClick sb b st) = toasts st
     \<and> approvalDialogOpen (handleApproveClick sb b st)
     \<and> dialog_shows (handleApproveClick sb b st) = Some Safe_To_Approve
     \<and> approve_button_disabled (handleApproveClick sb b st) = (processingBookingId st \<noteq> [])"
    by blast
qed

text \<open>During a network failure the checks answer as they do for an empty table, although
  the table holds a conflicting booking that they report when the query succeeds.\<close>

theorem failed_query_reads_as_no_conflict_witness:
  "checkBookingAvailability
       ((ex_client bob [ex_booking ''b1'' ''ann'' 600 660 Approved])\<lparr>outage := Some network_error\<rparr>)
       ''room-x'' (Some 630) (Some 690) None = None
   \<and> checkBookingAvailability (ex_client bob []) ''room-x'' (Some 630) (Some 690) None = None
   \<and> checkBookingAvailability (ex_client bob [ex_booking ''b1'' ''ann'' 600 660 Approved])
       ''room-x'' (Some 630) (Some 690) None \<noteq> None
   \<and> dialog_shows (handleApproveClick
       ((ex_client cy [ex_booking ''b1'' ''ann'' 600 660 Pending,
                       ex_booking ''b2'' ''bob'' 630 690 Pending])\<lparr>outage := Some network_error\<rparr>)
       (ex_pending ''b1'' ''ann'' 600 660) ex_view) = Some Safe_To_Approve
   \<and> dialog_shows (handleApproveClick
       (ex_client cy [ex_booking ''b1'' ''ann'' 600 660 Pending,
                      ex_booking ''b2'' ''bob'' 630 690 Pending])
       (ex_pending ''b1'' ''ann'' 600 660) ex_view) \<noteq> Some Safe_To_Approve"
proof -
  let ?sf = "(ex_client bob [ex_booking ''b1'' ''ann'' 600 660 Approved])\<lparr>outage := Some network_error\<rparr>"
  let ?sg = "(ex_client cy [ex_booking ''b1'' ''ann'' 600 660 Pending,
                       ex_booking ''b2'' ''bob'' 630 690 Pending])\<lparr>outage := Some network_error\<rparr>"
  have a: "checkBookingAvailability ?sf ''room-x'' (Some 630) (Some 690) None = None"
    using failed_query_reads_as_no_conflict [of ?sf network_error] by simp
  have b: "checkBookingAvailability (ex_client bob []) ''room-x'' (Some 630) (Some 690) None = None"
    by (simp add: client_eval example_eval)
  have c: "checkBookingAvailability (ex_client bob [ex_booking ''b1'' ''ann'' 600 660 Approved])
       ''room-x'' (Some 630) (Some 690) None \<noteq> None"
    by (simp add: client_eval example_eval)
  have d: "dialog_shows (handleApproveClick ?sg (ex_pending ''b1'' ''ann'' 600 660) ex_view)
      = Some Safe_To_Approve"
    using failed_query_reads_as_no_conflict [of ?sg network_error] by simp
  have e: "dialog_shows (handleApproveClick
       (ex_client cy [ex_booking ''b1'' ''ann'' 600 660 Pending,
                      ex_booking ''b2'' ''bob'' 630 690 Pending])
       (ex_pending ''b1'' ''ann'' 600 660) ex_view) \<noteq> Some Safe_To_Approve"
    by (simp add: dialog_shows_def handleApproveClick_def ex_pending_def ex_view_def
        client_eval example_eval Let_def)
  from a b c d e show ?thesis by blast
qed

section \<open>A booking on the slot of a pending booking\<close>

lemma same_slot_excluded:
  assumes "b_room_id x = b_room_id r" and "b_start_time x = b_start_time r"
    and "b_end_time x = b_end_time r" and "valid_booking_time_range r"
  shows "exclusion_conflict x r"
  using assms by (simp add: exclusion_conflict_def tsrange_overlap_def valid_booking_time_range_def)

lemma insert_on_taken_slot:
  assumes "x \<in> set (room_bookings d)" and "b_room_id x = b_room_id r"
    and "b_start_time x = b_start_time r" and "b_end_time x = b_end_time r"
  shows "(\<exists>e. db_insert c r d = Inl e)
    \<and> (insert_check c r \<and> valid_booking_time_range r
         \<and> b_id r \<notin> set (map b_id (room_bookings d))
       \<longrightarrow> db_insert c r d = Inl exclusion_violation)"
proof (cases "valid_booking_time_range r")
  case True
  from same_slot_excluded [OF assms(2,3,4) True] assms(1)
  have "\<exists>x \<in> set (room_bookings d). exclusion_conflict x r" by blast
  then show ?thesis by (simp add: db_insert_def)
next
  case False
  then show ?thesis by (simp add: db_insert_def)
qed

lemma no_twins_in_reachable_store:
  assumes "reachable d" and "a \<in> set (room_bookings d)" and "b \<in> set (room_bookings d)"
    and "b_id a \<noteq> b_id b" and "b_room_id a = b_room_id b"
    and "b_start_time a < b_end_time a"
  shows "\<not> (b_start_time b = b_start_time a \<and> b_end_time b = b_end_time a)"
proof
  assume same: "b_start_time b = b_start_time a \<and> b_end_time b = b_end_time a"
  from assms(1) have "no_overlapping_bookings (room_bookings d)"
    using reachable_store_inv by (simp add: store_inv_def)
  with assms(2,3,4) have "\<not> exclusion_conflict a b"
    by (simp add: no_overlapping_bookings_def)
  moreover from same assms(5,6) have "exclusion_conflict a b"
    by (simp add: exclusion_conflict_def tsrange_overlap_def)
  ultimately show False by blast
qed

text \<open>
  Claim C3, as amended. An insert whose room and interval equal those of a stored pending
  booking fails; when it passes the policy, the CHECK constraint and the primary key it
  fails with the exclusion violation, because the constraint does not look at the
  status. Hence no reachable store holds two bookings of one room with the same
  interval, and the approval-time check never has such a pair before it.
\<close>

theorem pending_twin_rejected:
  "(x \<in> set (room_bookings d) \<and> b_status x = Pending \<and> b_room_id x = b_room_id r
      \<and> b_start_time x = b_start_time r \<and> b_end_time x = b_end_time r
    \<longrightarrow> (\<exists>e. db_insert c r d = Inl e)
        \<and> (insert_check c r \<and> valid_booking_time_range r
             \<and> b_id r \<notin> set (map b_id (room_bookings d))
           \<longrightarrow> db_insert c r d = Inl exclusion_violation))
   \<and> (reachable d \<and> a \<in> set (room_bookings d) \<and> b \<in> set (room_bookings d)
      \<and> b_id a \<noteq> b_id b \<and> b_room_id a = b_room_id b
      \<and> b_start_time a < b_end_time a
    \<longrightarrow> \<not> (b_start_time b = b_start_time a \<and> b_end_time b = b_end_time a))"
  using insert_on_taken_slot no_twins_in_reachable_store by blast

lemma ex_reachable_apart:
  "reachable (ex_store [ex_booking ''b1'' ''ann'' 600 660 Pending,
                        ex_booking ''b2'' ''bob'' 700 760 Pending])"
  by (rule reachable.initial)
     (simp_all add: ex_store_def ex_booking_def no_overlapping_bookings_def
        exclusion_conflict_def tsrange_overlap_def)

text \<open>Bob's request for Ann's pending slot is rejected by the store; a store the
  constraints admit holds the two on different slots.\<close>

theorem pending_twin_rejected_witness:
  "db_insert (Some bob) (ex_booking ''b2'' ''bob'' 600 660 Pending)
       (ex_store [ex_booking ''b1'' ''ann'' 600 660 Pending]) = Inl exclusion_violation
   \<and> reachable (ex_store [ex_booking ''b1'' ''ann'' 600 660 Pending,
                          ex_booking ''b2'' ''bob'' 700 760 Pending])
   \<and> \<not> (b_start_time (ex_booking ''b2'' ''bob'' 700 760 Pending)
          = b_start_time (ex_booking ''b1'' ''ann'' 600 660 Pending)
        \<and> b_end_time (ex_booking ''b2'' ''bob'' 700 760 Pending)
          = b_end_time (ex_booking ''b1'' ''ann'' 600 660 Pending))"
proof -
  let ?x = "ex_booking ''b1'' ''ann'' 600 660 Pending"
  let ?r = "ex_booking ''b2'' ''bob'' 600 660 Pending"
  let ?b = "ex_booking ''b2'' ''bob'' 700 760 Pending"
  note th1 = pending_twin_rejected
                 [where x = ?x and d = "ex_store [?x]" and r = ?r and c = "Some bob"]
  note th2 = pending_twin_rejected [where d = "ex_store [?x, ?b]" and a = ?x and b = ?b]
  have p1: "?x \<in> set (room_bookings (ex_store [?x])) \<and> b_status ?x = Pending
      \<and> b_room_id ?x = b_room_id ?r
      \<and> b_start_time ?x = b_start_time ?r \<and> b_end_time ?x = b_end_time ?r"
    by (simp add: ex_store_def ex_booking_def)
  have p2: "insert_check (Some bob) ?r \<and> valid_booking_time_range ?r
             \<and> b_id ?r \<notin> set (map b_id (room_bookings (ex_store [?x])))"
    by (simp add: insert_check_def auth_uid_is_def valid_booking_time_range_def
        ex_booking_def ex_store_def bob_def)
  have p3: "reachable (ex_store [?x, ?b]) \<and> ?x \<in> set (room_bookings (ex_store [?x, ?b]))
      \<and> ?b \<in> set (room_bookings (ex_store [?x, ?b]))
      \<and> b_id ?x \<noteq> b_id ?b \<and> b_room_id ?x = b_room_id ?b
      \<and> b_start_time ?x < b_end_time ?x"
    using ex_reachable_apart by (simp add: ex_store_def ex_booking_def)
  from th1 p1 p2 have a: "db_insert (Some bob) ?r (ex_store [?x]) = Inl exclusion_violation"
    by blast
  from th2 p3 have b: "\<not> (b_start_time ?b = b_start_time ?x \<and> b_end_time ?b = b_end_time ?x)"
    by blast
  from a b ex_reachable_apart show ?thesis by blast
qed

text \<open>
  Claim C3 as stated fails: Ann's booking 10:00 to 11:00 is pending, the pre-submission
  check tells Bob the slot is free, and his insert for the same slot is rejected with
  the exclusion violation, which \<^verbatim>\<open>handleSubmit\<close> shows as a booking conflict.
\<close>

theorem pending_twin_insert_counterexample:
  "checkBookingAvailability (ex_client bob [ex_booking ''b1'' ''ann'' 600 660 Pending])
       ''room-x'' (Some 600) (Some 660) None = None
   \<and> db_insert (Some bob) (ex_booking ''b2'' ''bob'' 600 660 Pending)
       (ex_store [ex_booking ''b1'' ''ann'' 600 660 Pending]) = Inl exclusion_violation
   \<and> handleSubmit (ex_client bob [ex_booking ''b1'' ''ann'' 600 660 Pending]) True ''b2'' 0
       (ex_form 600 660) ex_dialog
     = (ex_client bob [ex_booking ''b1'' ''ann'' 600 660 Pending],
        ex_dialog\<lparr>cd_toasts := [conflict_toast]\<rparr>)"
proof -
  have a: "checkBookingAvailability (ex_client bob [ex_booking ''b1'' ''ann'' 600 660 Pending])
       ''room-x'' (Some 600) (Some 660) None = None"
    by (simp add: client_eval example_eval)
  have b: "db_insert (Some bob) (ex_booking ''b2'' ''bob'' 600 660 Pending)
       (ex_store [ex_booking ''b1'' ''ann'' 600 660 Pending]) = Inl exclusion_violation"
    by (simp add: store_eval example_eval)
  have r: "inserted_row bob ''b2'' 0 (ex_form 600 660) = ex_booking ''b2'' ''bob'' 600 660 Pending"
    by (simp add: inserted_row_def ex_form_def ex_booking_def bob_def trim_examples)
  have c: "handleSubmit (ex_client bob [ex_booking ''b1'' ''ann'' 600 660 Pending]) True ''b2'' 0
       (ex_form 600 660) ex_dialog
     = (ex_client bob [ex_booking ''b1'' ''ann'' 600 660 Pending],
        ex_dialog\<lparr>cd_toasts := [conflict_toast]\<rparr>)"
    using b exclusion_violation_is_conflict
    by (simp add: handleSubmit_def getCurrentUser_def request_insert_def r ex_client_def
        ex_dialog_def)
  from a b c show ?thesis by blast
qed

end
